theory Spec2Isabelle
  imports Main "HOL-Library.AList"
begin

section \<open>OpenAPI v3 documentation handler: type-to-schema resolution\<close>

text \<open>
  A shallow embedding of \<^verbatim>\<open>blacksheep/server/openapi/v3.py\<close>. A leading underscore of a
  Python name is written \<^verbatim>\<open>u_\<close>. Exceptions are values of type \<open>error\<close> on the left of
  a sum; the mutable handler object \<^verbatim>\<open>self\<close> is a record passed in and returned. Python
  dictionaries are association lists in insertion order: \<open>map_of\<close> reads a key and
  \<open>AList.update\<close> assigns one.
\<close>

subsection \<open>The document model (openapidocs.v3)\<close>

datatype value_type = ARRAY | BOOLEAN | INTEGER | NUMBER | OBJECT | STRING

text \<open>A format is a member of \<^verbatim>\<open>ValueFormat\<close> or, from a pydantic schema, any string.\<close>

datatype value_format = INT64 | FLOAT | UUID | DATE | DATETIME | BINARY | FormatText string

datatype enum_value = EnumInt int | EnumStr string

datatype reference = Reference string

text \<open>Values of examples and of constraints (\<^verbatim>\<open>Any\<close> in the source).\<close>

datatype py_value =
    PyNone | PyBool bool | PyInt int | PyStr string
  | PyList "py_value list" | PyDict "(string \<times> py_value) list"

text \<open>
  The attributes of \<^verbatim>\<open>Schema\<close> this module sets. \<open>Schema\<close> writes a schema whose four
  bounds (\<^verbatim>\<open>min_length\<close>, \<^verbatim>\<open>max_length\<close>, \<^verbatim>\<open>minimum\<close>, \<^verbatim>\<open>maximum\<close>) are unset; only the
  fields of a pydantic model carry them.
\<close>

datatype schema = SchemaFull
    (schema_type: "value_type option")
    (schema_format: "value_format option")
    (schema_required: "string list option")
    (schema_properties: "(string \<times> resolved) list option")
    (schema_items: "resolved option")
    (schema_nullable: "bool option")
    (schema_enum: "enum_value list option")
    (schema_min_length: "py_value option")
    (schema_max_length: "py_value option")
    (schema_minimum: "py_value option")
    (schema_maximum: "py_value option")
  and resolved = Sch schema | Ref reference

abbreviation Schema ::
  "value_type option \<Rightarrow> value_format option \<Rightarrow> string list option
     \<Rightarrow> (string \<times> resolved) list option \<Rightarrow> resolved option \<Rightarrow> bool option
     \<Rightarrow> enum_value list option \<Rightarrow> schema" where
  "Schema t f r p i n e \<equiv> SchemaFull t f r p i n e None None None None"

text \<open>\<^verbatim>\<open>Schema()\<close>: every attribute defaults to \<^verbatim>\<open>None\<close>.\<close>

definition empty_schema :: schema where
  "empty_schema = Schema None None None None None None None"

text \<open>The assignment \<^verbatim>\<open>schema.nullable = v\<close>.\<close>

fun set_nullable :: "bool \<Rightarrow> schema \<Rightarrow> schema" where
  "set_nullable v (SchemaFull t f r p i n e lo hi mn mx) = SchemaFull t f r p i (Some v) e lo hi mn mx"

subsection \<open>Runtime type descriptions\<close>

text \<open>
  The objects the handler receives as \<^verbatim>\<open>object_type\<close>. User classes are compared by
  identity, so a class is a number and its attributes live in a class table; two classes
  may share a \<^verbatim>\<open>__name__\<close>. \<open>TUnion\<close> is \<^verbatim>\<open>typing.Union[...]\<close>, \<open>TUnionType\<close> a union written
  \<^verbatim>\<open>X | Y\<close> (\<^verbatim>\<open>types.UnionType\<close>, Python 3.10), \<open>TAlias origin args\<close> any other
  \<^verbatim>\<open>typing._GenericAlias\<close> (\<^verbatim>\<open>List[int]\<close> is \<open>TAlias TList [TInt]\<close>), \<open>TForward\<close> a type
  given as a \<^verbatim>\<open>str\<close>, \<open>TSchema\<close> a \<^verbatim>\<open>Schema\<close> instance given in place of a type.
\<close>

datatype pytype =
    TStr | TInt | TFloat | TBool | TUUID | TDate | TDatetime
  | TNoneType
  | TList | TSet | TTuple | TSequence
  | TUnionForm
  | TClass nat
  | TVar string
  | TUnion "pytype list"
  | TUnionType "pytype list"
  | TAlias pytype "pytype list"
  | TForward string
  | TSchema schema

datatype class_kind = DataClass | PydanticModel | IntEnumClass | EnumClass | PlainClass

record field_info =
  field_name :: string
  field_type :: pytype

text \<open>
  One entry of \<^verbatim>\<open>schema()["properties"]\<close> of a pydantic model, with the keys
  \<^verbatim>\<open>_open_api_v2_field_schema_to_type\<close> reads (\<open>property_has_ref\<close> is \<^verbatim>\<open>"$ref" in schema\<close>),
  and one entry of the model's \<^verbatim>\<open>__fields__\<close>.
\<close>

record property_schema =
  property_has_ref :: bool
  property_type :: "string option"
  property_min_length :: "py_value option"
  property_max_length :: "py_value option"
  property_format :: "string option"
  property_exclusive_minimum :: "py_value option"
  property_exclusive_maximum :: "py_value option"

record model_field =
  model_field_outer_type :: pytype
  model_field_allow_none :: bool

text \<open>
  What reflection answers about a class: its \<^verbatim>\<open>__name__\<close>, which family it belongs to,
  \<^verbatim>\<open>dataclasses.fields\<close> with the types as they are annotated, the result of
  \<^verbatim>\<open>typing.get_type_hints\<close> (\<open>None\<close> when it raises \<^verbatim>\<open>NameError\<close>), \<^verbatim>\<open>__parameters__\<close>,
  the member values of an enumeration and, for a pydantic model, the properties of
  \<^verbatim>\<open>schema()\<close> and \<^verbatim>\<open>__fields__\<close> (\<open>None\<close> when the attribute is missing).
\<close>

record class_info =
  class_name :: string
  class_kind :: class_kind
  class_fields :: "field_info list"
  class_type_hints :: "(string \<times> pytype) list option"
  class_parameters :: "pytype list"
  class_members :: "enum_value list"
  class_schema_properties :: "(string \<times> property_schema) list"
  class_model_fields :: "(string \<times> model_field) list option"

text \<open>
  What the interpreter answers: the classes, and whether the aliases of \<^verbatim>\<open>typing\<close>
  (\<^verbatim>\<open>List[int]\<close>, \<^verbatim>\<open>Box[Item]\<close>, \<^verbatim>\<open>Optional[int]\<close>, \<^verbatim>\<open>Union\<close> itself) have the attribute
  \<^verbatim>\<open>__name__\<close>. They have it from Python 3.10 on and not on 3.7 to 3.9; \<^verbatim>\<open>setup.py\<close>
  declares 3.7 to 3.10.
\<close>

record class_table =
  class_info_of :: "nat \<Rightarrow> class_info"
  aliases_named :: bool

datatype warning = ForwardReferenceInGeneric pytype string

datatype error =
    UnsupportedUnionTypeException pytype
  | ValueError pytype
  | TypeError pytype
  | AttributeError pytype
  | KeyError pytype
  | NameError
  | AssertionError
  | RecursionError
  | DuplicatedContentTypeDocsException string

subsection \<open>Module-level helpers\<close>

fun get_origin :: "pytype \<Rightarrow> pytype option" where
  "get_origin (TAlias origin args) = Some origin"
| "get_origin (TUnion args) = Some TUnionForm"
| "get_origin t = None"

fun check_union :: "pytype \<Rightarrow> error + (bool \<times> pytype)" where
  "check_union (TUnion args) =
     (if TNoneType \<notin> set args \<or> length args > 2
      then Inl (UnsupportedUnionTypeException (TUnion args))
      else (case filter (\<lambda>possible_type. possible_type \<noteq> TNoneType) args of
              [] \<Rightarrow> Inr (False, TUnion args)
            | possible_type # rest \<Rightarrow> Inr (True, possible_type)))"
| "check_union object_type = Inr (False, object_type)"

subsection \<open>Rendering a counter: \<^verbatim>\<open>str(int)\<close> on a natural number\<close>

definition digit_char :: "nat \<Rightarrow> char" where
  "digit_char d = ''0123456789'' ! d"

fun str_nat :: "nat \<Rightarrow> string" where
  "str_nat n = (if n < 10 then [digit_char n] else str_nat (n div 10) @ [digit_char (n mod 10)])"

declare str_nat.simps [simp del]

subsection \<open>The handler object\<close>

datatype ref_key = KType pytype | KName string

text \<open>
  A key of \<^verbatim>\<open>_objects_references\<close> is a type or a type name; a type given as a string is
  the same key as that name.
\<close>

fun key_of :: "pytype \<Rightarrow> ref_key" where
  "key_of (TForward s) = KName s"
| "key_of t = KType t"

text \<open>\<^verbatim>\<open>Schema\<close> is a dataclass with \<^verbatim>\<open>eq\<close> and without \<^verbatim>\<open>frozen\<close>: it cannot be a dictionary key.\<close>

fun hashable :: "pytype \<Rightarrow> bool" where
  "hashable (TSchema s) = False"
| "hashable t = True"

datatype example = Example
    (example_summary: "string option")
    (example_description: "string option")
    (example_value: py_value)

record media_type =
  media_schema :: "resolved option"
  media_examples :: "(string \<times> example) list option"
  media_example :: "py_value option"

record header =
  header_description :: "string option"
  header_schema :: resolved

record response_doc =
  response_doc_description :: string
  response_doc_content :: "(string \<times> media_type) list option"
  response_doc_headers :: "(string \<times> header) list option"

text \<open>\<^verbatim>\<open>ResponseStatusType\<close>: an integer (or \<^verbatim>\<open>HTTPStatus\<close>) or a string.\<close>

datatype response_status = StatusInt nat | StatusStr string

text \<open>
  The attributes of \<^verbatim>\<open>self\<close> the methods below read or write. \<^verbatim>\<open>_types_schemas\<close> and
  \<^verbatim>\<open>handle_optional_response_with_404\<close> are set by the base class \<^verbatim>\<open>APIDocsHandler\<close>;
  warnings issued through \<^verbatim>\<open>warnings.warn\<close> are collected in \<open>emitted_warnings\<close>.
\<close>

record openapi_handler =
  components_schemas :: "(string \<times> schema) list option"
  objects_references :: "(ref_key \<times> reference) list"
  types_schemas :: "(pytype \<times> schema) list"
  common_responses :: "(response_status \<times> response_doc) list"
  handle_optional_response_with_404 :: bool
  emitted_warnings :: "warning list"

definition schemas_of :: "openapi_handler \<Rightarrow> (string \<times> schema) list" where
  "schemas_of self = (case components_schemas self of None \<Rightarrow> [] | Some m \<Rightarrow> m)"

subsection \<open>Registering a schema under a free name\<close>

lemma digit_char_code: "d < 10 \<Longrightarrow> of_char (digit_char d) = 48 + d"
proof -
  assume "d < 10"
  then consider "d = 0" | "d = 1" | "d = 2" | "d = 3" | "d = 4"
    | "d = 5" | "d = 6" | "d = 7" | "d = 8" | "d = 9"
    by atomize_elim arith
  then show ?thesis
    by cases (simp_all add: digit_char_def)
qed

lemma digit_char_inj: "d < 10 \<Longrightarrow> e < 10 \<Longrightarrow> digit_char d = digit_char e \<Longrightarrow> d = e"
proof -
  assume d: "d < 10" and e: "e < 10" and eq: "digit_char d = digit_char e"
  have "(of_char (digit_char d) :: nat) = of_char (digit_char e)"
    using eq by simp
  then show "d = e"
    using d e by (simp add: digit_char_code)
qed

lemma str_nat_not_Nil: "str_nat n \<noteq> []"
  by (subst str_nat.simps) simp

lemma str_nat_inj: "str_nat n = str_nat m \<Longrightarrow> n = m"
proof (induction n arbitrary: m rule: str_nat.induct)
  case (1 n)
  show ?case
  proof (cases "n < 10")
    case small_n: True
    show ?thesis
    proof (cases "m < 10")
      case True
      with small_n "1.prems" show ?thesis
        by (simp add: str_nat.simps [of n] str_nat.simps [of m] digit_char_inj)
    next
      case False
      with small_n "1.prems" str_nat_not_Nil [of "m div 10"] show ?thesis
        by (simp add: str_nat.simps [of n] str_nat.simps [of m])
    qed
  next
    case big_n: False
    show ?thesis
    proof (cases "m < 10")
      case True
      with big_n "1.prems" str_nat_not_Nil [of "n div 10"] show ?thesis
        by (simp add: str_nat.simps [of n] str_nat.simps [of m])
    next
      case False
      with big_n "1.prems" have parts:
        "str_nat (n div 10) = str_nat (m div 10)" "digit_char (n mod 10) = digit_char (m mod 10)"
        by (simp_all add: str_nat.simps [of n] str_nat.simps [of m])
      from big_n parts(1) have "n div 10 = m div 10"
        by (rule "1.IH")
      moreover from parts(2) have "n mod 10 = m mod 10"
        by (simp add: digit_char_inj)
      ultimately show ?thesis
        by (metis div_mult_mod_eq)
    qed
  qed
qed

text \<open>
  The \<^verbatim>\<open>while name in self.components.schemas\<close> loop of \<^verbatim>\<open>_register_schema\<close>. It ends
  because the dictionary is finite and the candidates \<^verbatim>\<open>f"{base_name}{counter}"\<close> are
  pairwise different.
\<close>

definition taken_after :: "(string \<times> schema) list \<Rightarrow> string \<Rightarrow> nat \<Rightarrow> nat set" where
  "taken_after schemas base_name counter =
     {k. counter < k \<and> base_name @ str_nat k \<in> fst ` set schemas}"

lemma finite_taken_after: "finite (taken_after schemas base_name counter)"
proof -
  have "inj (\<lambda>k. base_name @ str_nat k)"
    by (rule injI) (simp add: str_nat_inj)
  then have "finite ((\<lambda>k. base_name @ str_nat k) -` (fst ` set schemas))"
    by (intro finite_vimageI) simp_all
  moreover have "taken_after schemas base_name counter
      \<subseteq> (\<lambda>k. base_name @ str_nat k) -` (fst ` set schemas)"
    by (auto simp: taken_after_def)
  ultimately show ?thesis
    by (rule rev_finite_subset)
qed

function while_name_in_schemas ::
  "(string \<times> schema) list \<Rightarrow> string \<Rightarrow> nat \<Rightarrow> string \<Rightarrow> string" where
  "while_name_in_schemas schemas base_name counter name =
     (if name \<in> fst ` set schemas
      then while_name_in_schemas schemas base_name (counter + 1)
             (base_name @ str_nat (counter + 1))
      else name)"
  by pat_completeness auto
termination
proof (relation "measure (\<lambda>(schemas, base_name, counter, name).
    2 * card (taken_after schemas base_name counter)
      + (if name \<in> fst ` set schemas then 1 else 0))", goal_cases)
  case 1
  show ?case by simp
next
  case (2 schemas base_name counter name)
  let ?next = "base_name @ str_nat (counter + 1)"
  have sub: "taken_after schemas base_name (counter + 1) \<subseteq> taken_after schemas base_name counter"
    by (auto simp: taken_after_def)
  show ?case
  proof (cases "?next \<in> fst ` set schemas")
    case True
    then have "counter + 1 \<in> taken_after schemas base_name counter"
      "counter + 1 \<notin> taken_after schemas base_name (counter + 1)"
      by (simp_all add: taken_after_def)
    with sub have "taken_after schemas base_name (counter + 1)
        \<subset> taken_after schemas base_name counter"
      by blast
    then have "card (taken_after schemas base_name (counter + 1))
        < card (taken_after schemas base_name counter)"
      by (rule psubset_card_mono [OF finite_taken_after])
    with 2 True show ?thesis by simp
  next
    case False
    have "card (taken_after schemas base_name (counter + 1))
        \<le> card (taken_after schemas base_name counter)"
      by (rule card_mono [OF finite_taken_after sub])
    with 2 False show ?thesis by simp
  qed
qed

declare while_name_in_schemas.simps [simp del]

definition u_register_schema ::
  "openapi_handler \<Rightarrow> schema \<Rightarrow> string \<Rightarrow> reference \<times> openapi_handler" where
  "u_register_schema self schema name =
     (let schemas = (case components_schemas self of None \<Rightarrow> [] | Some m \<Rightarrow> m);
          name' = (if name \<in> fst ` set schemas
                   then while_name_in_schemas schemas name 0 name
                   else name)
      in (Reference (''#/components/schemas/'' @ name'),
          self\<lparr>components_schemas := Some (AList.update name' schema schemas)\<rparr>))"


subsection \<open>Type names\<close>

text \<open>
  \<^verbatim>\<open>object_type.__name__\<close> when \<^verbatim>\<open>hasattr(object_type, "__name__")\<close>. Classes and type
  variables carry a name; a string, a \<^verbatim>\<open>Schema\<close> and a union written \<^verbatim>\<open>X | Y\<close> do not. An
  alias of \<^verbatim>\<open>typing\<close> has none on Python 3.7 to 3.9; from 3.10 on its name is the name it
  was created with (\<^verbatim>\<open>List\<close>, \<^verbatim>\<open>Optional\<close> for a union of two members one of which is
  \<^verbatim>\<open>NoneType\<close>) or else the name of its origin.
\<close>

fun name_attribute :: "class_table \<Rightarrow> pytype \<Rightarrow> string option" where
  "name_attribute classes TStr = Some ''str''"
| "name_attribute classes TInt = Some ''int''"
| "name_attribute classes TFloat = Some ''float''"
| "name_attribute classes TBool = Some ''bool''"
| "name_attribute classes TUUID = Some ''UUID''"
| "name_attribute classes TDate = Some ''date''"
| "name_attribute classes TDatetime = Some ''datetime''"
| "name_attribute classes TNoneType = Some ''NoneType''"
| "name_attribute classes TList = Some ''list''"
| "name_attribute classes TSet = Some ''set''"
| "name_attribute classes TTuple = Some ''tuple''"
| "name_attribute classes TSequence = Some ''Sequence''"
| "name_attribute classes (TClass c) = Some (class_name (class_info_of classes c))"
| "name_attribute classes (TVar v) = Some v"
| "name_attribute classes TUnionForm = (if aliases_named classes then Some ''Union'' else None)"
| "name_attribute classes (TUnion args) =
     (if aliases_named classes
      then Some (if length args = 2 \<and> TNoneType \<in> set args then ''Optional'' else ''Union'')
      else None)"
| "name_attribute classes (TAlias origin args) =
     (if aliases_named classes
      then (if origin = TList then Some ''List''
            else if origin = TSet then Some ''Set''
            else if origin = TTuple then Some ''Tuple''
            else name_attribute classes origin)
      else None)"
| "name_attribute classes t = None"

text \<open>\<^verbatim>\<open>isinstance(object_type, GenericAlias)\<close>.\<close>

fun is_generic_alias :: "pytype \<Rightarrow> bool" where
  "is_generic_alias (TAlias origin args) = True"
| "is_generic_alias (TUnion args) = True"
| "is_generic_alias t = False"

fun type_args_of :: "pytype \<Rightarrow> pytype list" where
  "type_args_of (TAlias origin args) = args"
| "type_args_of (TUnion args) = args"
| "type_args_of t = []"

text \<open>\<^verbatim>\<open>sep.join(parts)\<close>.\<close>

fun join :: "string \<Rightarrow> string list \<Rightarrow> string" where
  "join sep [] = []"
| "join sep [x] = x"
| "join sep (x # y # ys) = x @ sep @ join sep (y # ys)"

text \<open>Evaluating a generator of fallible items from left to right: the first error wins.\<close>

fun collect :: "(error + 'a) list \<Rightarrow> error + 'a list" where
  "collect [] = Inr []"
| "collect (Inl e # rest) = Inl e"
| "collect (Inr x # rest) = (case collect rest of Inl e \<Rightarrow> Inl e | Inr xs \<Rightarrow> Inr (x # xs))"

type_synonym type_args = "(pytype \<times> pytype) list"

text \<open>
  A dictionary of type arguments is truthy when it is given and not empty. The first
  argument of the two naming functions is the call depth still available: Python ends
  a recursion that exceeds it with \<^verbatim>\<open>RecursionError\<close>.
\<close>

fun truthy_args :: "type_args option \<Rightarrow> bool" where
  "truthy_args None = False"
| "truthy_args (Some d) = (d \<noteq> [])"

fun context_lookup :: "type_args option \<Rightarrow> pytype \<Rightarrow> error + pytype" where
  "context_lookup context_type_args object_type =
     (if truthy_args context_type_args
      then (if \<not> hashable object_type then Inl (TypeError object_type)
            else (case map_of (the context_type_args) object_type of
                    Some bound \<Rightarrow> Inr bound
                  | None \<Rightarrow> Inr object_type))
      else Inr object_type)"

fun get_type_name ::
    "nat \<Rightarrow> class_table \<Rightarrow> pytype \<Rightarrow> type_args option \<Rightarrow> error + string"
  and get_type_name_for_generic ::
    "nat \<Rightarrow> class_table \<Rightarrow> pytype \<Rightarrow> type_args option \<Rightarrow> error + string" where
  "get_type_name 0 classes object_type context_type_args = Inl RecursionError"
| "get_type_name (Suc depth) classes object_type context_type_args =
     (case context_lookup context_type_args object_type of
        Inl e \<Rightarrow> Inl e
      | Inr object_type' \<Rightarrow>
          (case name_attribute classes object_type' of
             Some name \<Rightarrow> Inr name
           | None \<Rightarrow>
               if is_generic_alias object_type'
               then get_type_name_for_generic depth classes object_type' context_type_args
               else Inl (ValueError object_type')))"
| "get_type_name_for_generic 0 classes object_type context_type_args = Inl RecursionError"
| "get_type_name_for_generic (Suc depth) classes object_type context_type_args =
     (if \<not> is_generic_alias object_type then Inl AssertionError
      else (case get_origin object_type of
              None \<Rightarrow> Inl AssertionError
            | Some origin \<Rightarrow>
                (case collect (map (\<lambda>arg. get_type_name depth classes arg context_type_args)
                                 (type_args_of object_type)) of
                   Inl e \<Rightarrow> Inl e
                 | Inr names \<Rightarrow>
                     (case get_type_name depth classes origin None of
                        Inl e \<Rightarrow> Inl e
                      | Inr origin_name \<Rightarrow>
                          Inr (origin_name @ ''Of'' @ join ''And'' names)))))"


subsection \<open>Object type handlers\<close>

datatype object_type_handler = DataClassTypeHandler | PydanticModelTypeHandler

fun handles_type :: "class_table \<Rightarrow> object_type_handler \<Rightarrow> pytype \<Rightarrow> bool" where
  "handles_type classes DataClassTypeHandler (TClass c) =
     (class_kind (class_info_of classes c) = DataClass)"
| "handles_type classes PydanticModelTypeHandler (TClass c) =
     (class_kind (class_info_of classes c) = PydanticModel)"
| "handles_type classes handler object_type = False"

text \<open>
  \<^verbatim>\<open>PydanticModelTypeHandler._open_api_v2_field_schema_to_type\<close>. The argument
  \<open>field_info\<close> is \<open>None\<close> when \<^verbatim>\<open>__fields__\<close> has no entry of that name.
\<close>

definition u_open_api_v2_field_schema_to_type ::
  "model_field option \<Rightarrow> property_schema \<Rightarrow> error + pytype" where
  "u_open_api_v2_field_schema_to_type field_info schema =
     (if property_has_ref schema
      then (case field_info of
              None \<Rightarrow> Inl (AttributeError TNoneType)
            | Some info \<Rightarrow> Inr (model_field_outer_type info))
      else (let value_type = property_type schema;
                nullable = (case field_info of
                              Some info \<Rightarrow> model_field_allow_none info
                            | None \<Rightarrow> False)
            in if value_type = Some ''string''
               then Inr (TSchema (SchemaFull (Some STRING)
                      (map_option FormatText (property_format schema)) None None None
                      (Some nullable) None
                      (property_min_length schema) (property_max_length schema) None None))
               else if value_type = Some ''boolean'' then Inr TBool
               else if value_type = Some ''file''
               then Inr (TSchema (Schema (Some STRING) (Some BINARY) None None None None None))
               else if value_type = Some ''number''
               then Inr (TSchema (SchemaFull (Some NUMBER) (Some FLOAT) None None None
                      (Some nullable) None None None
                      (property_exclusive_minimum schema) (property_exclusive_maximum schema)))
               else if value_type = Some ''integer''
               then Inr (TSchema (SchemaFull (Some INTEGER) (Some INT64) None None None
                      (Some nullable) None None None
                      (property_exclusive_minimum schema) (property_exclusive_maximum schema)))
               else if value_type = Some ''array''
               then (case field_info of
                       Some info \<Rightarrow> Inr (model_field_outer_type info)
                     | None \<Rightarrow> Inr TList)
               else Inr (TSchema empty_schema)))"

text \<open>
  \<^verbatim>\<open>get_type_fields\<close> of the two handlers: the fields of a dataclass with their
  annotated types, the properties of a pydantic model with the type or schema computed
  from each.
\<close>

fun get_type_fields ::
  "class_table \<Rightarrow> object_type_handler \<Rightarrow> pytype \<Rightarrow> error + field_info list" where
  "get_type_fields classes DataClassTypeHandler (TClass c) =
     Inr (class_fields (class_info_of classes c))"
| "get_type_fields classes PydanticModelTypeHandler (TClass c) =
     collect (map (\<lambda>(name, v).
         (case u_open_api_v2_field_schema_to_type
                 (map_of (case class_model_fields (class_info_of classes c) of
                            None \<Rightarrow> []
                          | Some fields_info \<Rightarrow> fields_info) name) v of
            Inl e \<Rightarrow> Inl e
          | Inr t \<Rightarrow> Inr \<lparr>field_name = name, field_type = t\<rparr>))
       (class_schema_properties (class_info_of classes c)))"
| "get_type_fields classes handler object_type = Inr []"

definition object_types_handlers :: "object_type_handler list" where
  "object_types_handlers = [DataClassTypeHandler, PydanticModelTypeHandler]"

definition get_fields :: "class_table \<Rightarrow> pytype \<Rightarrow> error + field_info list" where
  "get_fields classes object_type =
     (case find (\<lambda>handler. handles_type classes handler object_type) object_types_handlers of
        Some handler \<Rightarrow> get_type_fields classes handler object_type
      | None \<Rightarrow> Inr [])"

definition u_can_handle_class_type :: "class_table \<Rightarrow> openapi_handler \<Rightarrow> pytype \<Rightarrow> bool" where
  "u_can_handle_class_type classes self object_type =
     (list_ex (\<lambda>handler. handles_type classes handler object_type) object_types_handlers
      \<or> map_of (types_schemas self) object_type \<noteq> None)"

subsection \<open>The reference cache\<close>

definition u_get_stored_reference ::
  "nat \<Rightarrow> class_table \<Rightarrow> openapi_handler \<Rightarrow> pytype \<Rightarrow> type_args option
     \<Rightarrow> error + reference option" where
  "u_get_stored_reference depth classes self object_type type_args =
     (if \<not> hashable object_type then Inl (TypeError object_type)
      else (case map_of (objects_references self) (key_of object_type) of
              Some reference \<Rightarrow> Inr (Some reference)
            | None \<Rightarrow>
                if truthy_args type_args
                then (case get_type_name depth classes object_type type_args of
                        Inl e \<Rightarrow> Inl e
                      | Inr type_name \<Rightarrow>
                          Inr (map_of (objects_references self) (KName type_name)))
                else Inr None))"

definition object_schema :: "string list \<Rightarrow> (string \<times> resolved) list \<Rightarrow> schema" where
  "object_schema required properties =
     Schema (Some OBJECT) None (if required = [] then None else Some required)
       (Some properties) None None None"

definition store_reference ::
  "pytype \<Rightarrow> string \<Rightarrow> reference \<Rightarrow> openapi_handler \<Rightarrow> openapi_handler" where
  "store_reference object_type type_name reference self =
     self\<lparr>objects_references :=
       AList.update (KName type_name) reference
         (AList.update (key_of object_type) reference (objects_references self))\<rparr>"

definition u_handle_object_type ::
  "nat \<Rightarrow> class_table \<Rightarrow> openapi_handler \<Rightarrow> pytype \<Rightarrow> (string \<times> resolved) list
     \<Rightarrow> string list \<Rightarrow> type_args option \<Rightarrow> error + reference \<times> openapi_handler" where
  "u_handle_object_type depth classes self object_type properties required context_type_args =
     (case get_type_name depth classes object_type context_type_args of
        Inl e \<Rightarrow> Inl e
      | Inr type_name \<Rightarrow>
          (case u_register_schema self (object_schema required properties) type_name of
             (reference, self') \<Rightarrow>
               Inr (reference, store_reference object_type type_name reference self')))"

definition u_handle_type_having_explicit_schema ::
  "nat \<Rightarrow> class_table \<Rightarrow> openapi_handler \<Rightarrow> pytype \<Rightarrow> error + reference \<times> openapi_handler" where
  "u_handle_type_having_explicit_schema depth classes self object_type =
     (case map_of (types_schemas self) object_type of
        None \<Rightarrow> Inl (KeyError object_type)
      | Some schema \<Rightarrow>
          (case get_type_name depth classes object_type (Some []) of
             Inl e \<Rightarrow> Inl e
           | Inr type_name \<Rightarrow>
               (case u_register_schema self schema type_name of
                  (reference, self') \<Rightarrow>
                    Inr (reference, store_reference object_type type_name reference self'))))"

subsection \<open>Resolution\<close>

text \<open>
  \<^verbatim>\<open>get_schema_by_type\<close> and the private methods it reaches call each other. The private
  methods take the public one as their first argument \<open>resolve\<close>; \<open>get_schema_by_type\<close>
  closes the knot by recursion on the call depth still available, and answers
  \<open>RecursionError\<close> when none is left.
\<close>

type_synonym resolver =
  "pytype \<Rightarrow> type_args option \<Rightarrow> openapi_handler \<Rightarrow> error + resolved \<times> openapi_handler"

fun is_str :: "pytype \<Rightarrow> bool" where
  "is_str (TForward s) = True"
| "is_str t = False"

text \<open>The forward-reference step of \<^verbatim>\<open>_get_schema_for_class\<close>.\<close>

fun full_type_of_forward_reference ::
  "class_table \<Rightarrow> pytype \<Rightarrow> string \<Rightarrow> pytype \<Rightarrow> error + pytype" where
  "full_type_of_forward_reference classes (TClass c) name child_type =
     (case class_type_hints (class_info_of classes c) of
        None \<Rightarrow> Inl NameError
      | Some annotations \<Rightarrow>
          (case map_of annotations name of
             Some t \<Rightarrow> Inr t
           | None \<Rightarrow> Inr child_type))"
| "full_type_of_forward_reference classes object_type name child_type =
     Inl (TypeError object_type)"

fun class_fields_loop ::
  "resolver \<Rightarrow> class_table \<Rightarrow> pytype \<Rightarrow> field_info list \<Rightarrow> string list
     \<Rightarrow> (string \<times> resolved) list \<Rightarrow> openapi_handler
     \<Rightarrow> error + string list \<times> (string \<times> resolved) list \<times> openapi_handler" where
  "class_fields_loop resolve classes object_type [] required properties self =
     Inr (required, properties, self)"
| "class_fields_loop resolve classes object_type (field # rest) required properties self =
     (case check_union (field_type field) of
        Inl e \<Rightarrow> Inl e
      | Inr (is_optional, child_type) \<Rightarrow>
          (case (if is_str child_type
                 then full_type_of_forward_reference classes object_type
                        (field_name field) child_type
                 else Inr child_type) of
             Inl e \<Rightarrow> Inl e
           | Inr child_type' \<Rightarrow>
               (case resolve child_type' None self of
                  Inl e \<Rightarrow> Inl e
                | Inr (schema, self') \<Rightarrow>
                    class_fields_loop resolve classes object_type rest
                      (if \<not> is_optional then required @ [field_name field] else required)
                      (AList.update (field_name field) schema properties) self')))"

definition u_get_schema_for_class ::
  "resolver \<Rightarrow> nat \<Rightarrow> class_table \<Rightarrow> pytype \<Rightarrow> openapi_handler
     \<Rightarrow> error + reference \<times> openapi_handler" where
  "u_get_schema_for_class resolve depth classes object_type self =
     (if \<not> u_can_handle_class_type classes self object_type then Inl AssertionError
      else if map_of (types_schemas self) object_type \<noteq> None
      then u_handle_type_having_explicit_schema depth classes self object_type
      else (case get_fields classes object_type of
              Inl e \<Rightarrow> Inl e
            | Inr fs \<Rightarrow>
                (case class_fields_loop resolve classes object_type fs [] [] self of
                   Inl e \<Rightarrow> Inl e
                 | Inr (required, properties, self') \<Rightarrow>
                     u_handle_object_type depth classes self' object_type properties required
                       None)))"

fun u_try_get_schema_for_simple_type :: "pytype \<Rightarrow> schema option" where
  "u_try_get_schema_for_simple_type TStr =
     Some (Schema (Some STRING) None None None None None None)"
| "u_try_get_schema_for_simple_type TInt =
     Some (Schema (Some INTEGER) (Some INT64) None None None None None)"
| "u_try_get_schema_for_simple_type TFloat =
     Some (Schema (Some NUMBER) (Some FLOAT) None None None None None)"
| "u_try_get_schema_for_simple_type TBool =
     Some (Schema (Some BOOLEAN) None None None None None None)"
| "u_try_get_schema_for_simple_type TUUID =
     Some (Schema (Some STRING) (Some UUID) None None None None None)"
| "u_try_get_schema_for_simple_type TDate =
     Some (Schema (Some STRING) (Some DATE) None None None None None)"
| "u_try_get_schema_for_simple_type TDatetime =
     Some (Schema (Some STRING) (Some DATETIME) None None None None None)"
| "u_try_get_schema_for_simple_type t = None"

definition array_schema :: "resolved \<Rightarrow> schema" where
  "array_schema items = Schema (Some ARRAY) None None None (Some items) None None"

definition u_try_get_schema_for_iterable ::
  "resolver \<Rightarrow> pytype \<Rightarrow> type_args option \<Rightarrow> openapi_handler
     \<Rightarrow> error + schema option \<times> openapi_handler" where
  "u_try_get_schema_for_iterable resolve object_type context_type_args self =
     (if object_type \<in> {TList, TSet, TTuple}
      then Inr (Some (array_schema (Sch (Schema (Some STRING) None None None None None None))),
                self)
      else (case get_origin object_type of
              None \<Rightarrow> Inr (None, self)
            | Some origin \<Rightarrow>
                if origin \<notin> {TList, TSet, TTuple, TSequence} then Inr (None, self)
                else (case context_lookup context_type_args
                             (case type_args_of object_type of
                                [] \<Rightarrow> TStr
                              | first # others \<Rightarrow> first) of
                        Inl e \<Rightarrow> Inl e
                      | Inr item_type \<Rightarrow>
                          (case resolve item_type context_type_args self of
                             Inl e \<Rightarrow> Inl e
                           | Inr (items, self') \<Rightarrow>
                               Inr (Some (array_schema items), self')))))"

text \<open>
  Building a dictionary from key-value pairs, as \<^verbatim>\<open>dict(pairs)\<close> and a dictionary
  comprehension do: a repeated key keeps its first position and its last value.
\<close>

definition dict_of_items :: "('k \<times> 'v) list \<Rightarrow> ('k \<times> 'v) list" where
  "dict_of_items pairs = foldl (\<lambda>d (k, v). AList.update k v d) [] pairs"

text \<open>\<^verbatim>\<open>dict(zip(parameters, args))\<close>.\<close>

definition dict_zip :: "pytype list \<Rightarrow> pytype list \<Rightarrow> type_args" where
  "dict_zip parameters args = dict_of_items (zip parameters args)"

text \<open>
  The field loop of \<^verbatim>\<open>_try_get_schema_for_generic\<close>. It leaves with \<open>None\<close> after the
  warning when it meets a forward reference.
\<close>

fun generic_fields_loop ::
  "resolver \<Rightarrow> pytype \<Rightarrow> type_args \<Rightarrow> field_info list \<Rightarrow> string list
     \<Rightarrow> (string \<times> resolved) list \<Rightarrow> openapi_handler
     \<Rightarrow> error + (string list \<times> (string \<times> resolved) list) option \<times> openapi_handler" where
  "generic_fields_loop resolve object_type type_args [] required properties self =
     Inr (Some (required, properties), self)"
| "generic_fields_loop resolve object_type type_args (field # rest) required properties self =
     (case check_union (field_type field) of
        Inl e \<Rightarrow> Inl e
      | Inr (is_optional, child_type) \<Rightarrow>
          if is_str child_type
          then Inr (None, self\<lparr>emitted_warnings := emitted_warnings self
                      @ [ForwardReferenceInGeneric object_type (field_name field)]\<rparr>)
          else if \<not> hashable child_type then Inl (TypeError child_type)
          else (case resolve (case map_of type_args child_type of
                                Some bound \<Rightarrow> bound
                              | None \<Rightarrow> child_type)
                       (Some type_args) self of
                  Inl e \<Rightarrow> Inl e
                | Inr (schema, self') \<Rightarrow>
                    generic_fields_loop resolve object_type type_args rest
                      (if \<not> is_optional then required @ [field_name field] else required)
                      (AList.update (field_name field) schema properties) self'))"

definition u_try_get_schema_for_generic ::
  "resolver \<Rightarrow> nat \<Rightarrow> class_table \<Rightarrow> pytype \<Rightarrow> type_args option \<Rightarrow> openapi_handler
     \<Rightarrow> error + reference option \<times> openapi_handler" where
  "u_try_get_schema_for_generic resolve depth classes object_type context_type_args self =
     (case get_origin object_type of
        Some (TClass c) \<Rightarrow>
          (case get_fields classes (TClass c) of
             Inl e \<Rightarrow> Inl e
           | Inr fs \<Rightarrow>
               (case generic_fields_loop resolve object_type
                       (dict_zip (class_parameters (class_info_of classes c))
                          (type_args_of object_type))
                       fs [] [] self of
                  Inl e \<Rightarrow> Inl e
                | Inr (None, self') \<Rightarrow> Inr (None, self')
                | Inr (Some (required, properties), self') \<Rightarrow>
                    (case u_handle_object_type depth classes self' object_type properties
                            required context_type_args of
                       Inl e \<Rightarrow> Inl e
                     | Inr (reference, self'') \<Rightarrow> Inr (Some reference, self''))))
      | Some origin \<Rightarrow> Inl (AttributeError origin)
      | None \<Rightarrow> Inl (AttributeError object_type))"

text \<open>\<^verbatim>\<open>inspect.isclass\<close>.\<close>

fun isclass :: "pytype \<Rightarrow> bool" where
  "isclass TUnionForm = False"
| "isclass (TVar v) = False"
| "isclass (TUnion args) = False"
| "isclass (TUnionType args) = False"
| "isclass (TAlias origin args) = False"
| "isclass (TForward s) = False"
| "isclass (TSchema s) = False"
| "isclass t = True"

fun u_try_get_schema_for_enum :: "class_table \<Rightarrow> pytype \<Rightarrow> schema option" where
  "u_try_get_schema_for_enum classes (TClass c) =
     (if class_kind (class_info_of classes c) = IntEnumClass
      then Some (Schema (Some INTEGER) None None None None None (Some (class_members (class_info_of classes c))))
      else if class_kind (class_info_of classes c) = EnumClass
      then Some (Schema (Some STRING) None None None None None (Some (class_members (class_info_of classes c))))
      else None)"
| "u_try_get_schema_for_enum classes t = None"

definition u_get_schema_by_type ::
  "resolver \<Rightarrow> nat \<Rightarrow> class_table \<Rightarrow> pytype \<Rightarrow> type_args option \<Rightarrow> openapi_handler
     \<Rightarrow> error + resolved \<times> openapi_handler" where
  "u_get_schema_by_type resolve depth classes object_type type_args self =
     (case u_get_stored_reference depth classes self object_type type_args of
        Inl e \<Rightarrow> Inl e
      | Inr (Some stored_ref) \<Rightarrow> Inr (Ref stored_ref, self)
      | Inr None \<Rightarrow>
          if u_can_handle_class_type classes self object_type
          then (case u_get_schema_for_class resolve depth classes object_type self of
                  Inl e \<Rightarrow> Inl e
                | Inr (reference, self') \<Rightarrow> Inr (Ref reference, self'))
          else (case u_try_get_schema_for_simple_type object_type of
                  Some schema \<Rightarrow> Inr (Sch schema, self)
                | None \<Rightarrow>
                    (case u_try_get_schema_for_iterable resolve object_type type_args self of
                       Inl e \<Rightarrow> Inl e
                     | Inr (Some schema, self') \<Rightarrow> Inr (Sch schema, self')
                     | Inr (None, self') \<Rightarrow>
                         (case (if is_generic_alias object_type
                                then u_try_get_schema_for_generic resolve depth classes
                                       object_type type_args self'
                                else Inr (None, self')) of
                            Inl e \<Rightarrow> Inl e
                          | Inr (Some reference, self'') \<Rightarrow> Inr (Ref reference, self'')
                          | Inr (None, self'') \<Rightarrow>
                              (case (if isclass object_type
                                     then u_try_get_schema_for_enum classes object_type
                                     else None) of
                                 Some schema \<Rightarrow> Inr (Sch schema, self'')
                               | None \<Rightarrow> Inr (Sch empty_schema, self''))))))"

primrec get_schema_by_type ::
  "nat \<Rightarrow> class_table \<Rightarrow> pytype \<Rightarrow> type_args option \<Rightarrow> openapi_handler
     \<Rightarrow> error + resolved \<times> openapi_handler" where
  "get_schema_by_type 0 classes object_type type_args self = Inl RecursionError"
| "get_schema_by_type (Suc depth) classes object_type type_args self =
     (case object_type of
        TSchema schema \<Rightarrow> Inr (Sch schema, self)
      | _ \<Rightarrow>
          (case u_get_stored_reference depth classes self object_type type_args of
             Inl e \<Rightarrow> Inl e
           | Inr (Some stored_ref) \<Rightarrow> Inr (Ref stored_ref, self)
           | Inr None \<Rightarrow>
               (case check_union object_type of
                  Inl e \<Rightarrow> Inl e
                | Inr (is_optional, child_type) \<Rightarrow>
                    (case u_get_schema_by_type (get_schema_by_type depth classes) depth classes
                            child_type type_args self of
                       Inl e \<Rightarrow> Inl e
                     | Inr (Sch schema, self') \<Rightarrow>
                         Inr (Sch (if \<not> is_optional then set_nullable is_optional schema
                                   else schema), self')
                     | Inr (Ref reference, self') \<Rightarrow> Inr (Ref reference, self')))))"

definition register_schema_for_type ::
  "nat \<Rightarrow> class_table \<Rightarrow> pytype \<Rightarrow> openapi_handler \<Rightarrow> error + reference \<times> openapi_handler" where
  "register_schema_for_type depth classes object_type self =
     (case u_get_stored_reference depth classes self object_type None of
        Inl e \<Rightarrow> Inl e
      | Inr (Some stored_ref) \<Rightarrow> Inr (stored_ref, self)
      | Inr None \<Rightarrow>
          (case get_schema_by_type depth classes object_type None self of
             Inl e \<Rightarrow> Inl e
           | Inr (Sch schema, self') \<Rightarrow>
               (case get_type_name depth classes object_type None of
                  Inl e \<Rightarrow> Inl e
                | Inr name \<Rightarrow> Inr (u_register_schema self' schema name))
           | Inr (Ref reference, self') \<Rightarrow> Inr (reference, self')))"


subsection \<open>Handlers, binders and documentation overrides\<close>

text \<open>
  The classes of \<^verbatim>\<open>blacksheep.server.bindings\<close> and \<^verbatim>\<open>.common\<close> are declared outside the
  files at hand; the records below carry the attributes this module reads from them. The class of
  an entry of \<^verbatim>\<open>handler.binders\<close> is its \<open>binder_kind\<close>; \<open>binder_default_is_empty\<close> is the test
  \<^verbatim>\<open>default is empty\<close> on the entry.
\<close>

datatype binder_kind =
  BodyBinder | QueryBinder | RouteBinder | HeaderBinder | CookieBinder | OtherBinder

record request_binder =
  binder_kind :: binder_kind
  binder_parameter_name :: string
  binder_expected_type :: pytype
  binder_required :: bool
  binder_default_is_empty :: bool
  binder_content_type :: string

datatype parameter_location = PATH | QUERY | COOKIE | HEADER

datatype parameter_source = SourceQuery | SourceHeader | SourcePath | SourceCookie

record parameter_info =
  parameter_info_description :: "string option"
  parameter_info_value_type :: "pytype option"
  parameter_info_source :: "parameter_source option"
  parameter_info_required :: "bool option"
  parameter_info_example :: "py_value option"

record request_body_info =
  request_body_info_description :: "string option"
  request_body_info_examples :: "(string \<times> py_value) list option"

datatype response_example = ResponseExample
    (response_example_value: py_value)
    (response_example_name: "string option")
    (response_example_summary: "string option")
    (response_example_description: "string option")

text \<open>An item of \<^verbatim>\<open>ContentInfo.examples\<close> is a \<^verbatim>\<open>ResponseExample\<close> or a bare value.\<close>

datatype example_item = Bare py_value | Wrapped response_example

record content_info =
  content_info_type :: "pytype option"
  content_info_examples :: "example_item list option"
  content_info_content_type :: string

record header_info =
  header_info_type :: pytype
  header_info_description :: "string option"

record response_info =
  response_info_description :: string
  response_info_headers :: "(string \<times> header_info) list option"
  response_info_content :: "content_info list option"

text \<open>A value of \<^verbatim>\<open>EndpointDocs.responses\<close>: a description or a \<^verbatim>\<open>ResponseInfo\<close>.\<close>

datatype response_entry = Description string | Info response_info

record endpoint_docs =
  docs_parameters :: "(string \<times> parameter_info) list option"
  docs_request_body :: "request_body_info option"
  docs_responses :: "(response_status \<times> response_entry) list option"

text \<open>
  \<open>NoAnnotation\<close> is the sentinel \<^verbatim>\<open>...\<close> that \<^verbatim>\<open>getattr(handler, "return_type", ...)\<close>
  yields, \<open>ReturnsNone\<close> the annotation \<^verbatim>\<open>None\<close>.
\<close>

datatype return_annotation = NoAnnotation | ReturnsNone | Returns pytype

text \<open>
  A request handler: \<open>handler_binders\<close> is \<open>None\<close> when the object has no attribute
  \<^verbatim>\<open>binders\<close>; \<open>handler_docs\<close> is what \<^verbatim>\<open>self.get_handler_docs(handler)\<close> returns.
\<close>

record handler =
  handler_binders :: "request_binder list option"
  handler_docs :: "endpoint_docs option"
  handler_return_type :: return_annotation

text \<open>
  What this module uses from \<^verbatim>\<open>.common\<close> without the declaration being at hand, taken
  as parameters: the default of \<^verbatim>\<open>ContentInfo.content_type\<close>, the base-class method
  \<^verbatim>\<open>normalize_example\<close> and the function \<^verbatim>\<open>response_status_to_str\<close>.
\<close>

record common_module =
  default_content_type :: string
  normalize_example :: "py_value \<Rightarrow> py_value"
  response_status_to_str :: "response_status \<Rightarrow> string"

record request_body =
  request_body_content :: "(string \<times> media_type) list"
  request_body_required :: bool
  request_body_description :: "string option"

record parameter =
  parameter_name :: string
  parameter_in :: parameter_location
  parameter_required :: "bool option"
  parameter_schema :: "resolved option"
  parameter_description :: "string option"
  parameter_example :: "py_value option"

subsection \<open>Request body and parameters\<close>

definition u_get_body_binder :: "request_binder list \<Rightarrow> request_binder option" where
  "u_get_body_binder binders = find (\<lambda>b. binder_kind b = BodyBinder) binders"

definition get_request_body ::
  "nat \<Rightarrow> class_table \<Rightarrow> openapi_handler \<Rightarrow> handler
     \<Rightarrow> error + request_body option \<times> openapi_handler" where
  "get_request_body depth classes self handler =
     (case handler_binders handler of
        None \<Rightarrow> Inr (None, self)
      | Some binders \<Rightarrow>
          (case u_get_body_binder binders of
             None \<Rightarrow> Inr (None, self)
           | Some body_binder \<Rightarrow>
               (let body_info = (case handler_docs handler of
                                   Some docs \<Rightarrow> docs_request_body docs
                                 | None \<Rightarrow> None);
                    body_examples =
                      (case body_info of
                         None \<Rightarrow> None
                       | Some info \<Rightarrow>
                           (case request_body_info_examples info of
                              None \<Rightarrow> None
                            | Some examples \<Rightarrow>
                                if examples = [] then None
                                else Some (dict_of_items
                                  (map (\<lambda>(key, v). (key, Example None None v)) examples))))
                in (case get_schema_by_type depth classes (binder_expected_type body_binder)
                            None self of
                      Inl e \<Rightarrow> Inl e
                    | Inr (schema, self') \<Rightarrow>
                        Inr (Some \<lparr>request_body_content =
                                     [(binder_content_type body_binder,
                                       \<lparr>media_schema = Some schema,
                                        media_examples = body_examples,
                                        media_example = None\<rparr>)],
                                   request_body_required = binder_required body_binder,
                                   request_body_description =
                                     (case body_info of
                                        Some info \<Rightarrow> request_body_info_description info
                                      | None \<Rightarrow> None)\<rparr>,
                             self')))))"

fun get_parameter_location_for_binder :: "request_binder \<Rightarrow> parameter_location option" where
  "get_parameter_location_for_binder bnd =
     (if binder_kind bnd = RouteBinder then Some PATH
      else if binder_kind bnd = QueryBinder then Some QUERY
      else if binder_kind bnd = CookieBinder then Some COOKIE
      else if binder_kind bnd = HeaderBinder then Some HEADER
      else None)"

text \<open>\<^verbatim>\<open>ParameterLocation[value.value.upper()]\<close>: the location of the same name.\<close>

fun u_parameter_source_to_openapi_obj :: "parameter_source \<Rightarrow> parameter_location" where
  "u_parameter_source_to_openapi_obj SourceQuery = QUERY"
| "u_parameter_source_to_openapi_obj SourceHeader = HEADER"
| "u_parameter_source_to_openapi_obj SourcePath = PATH"
| "u_parameter_source_to_openapi_obj SourceCookie = COOKIE"

text \<open>The truth value of an object given as a type: only the empty string is falsy.\<close>

fun truthy_type :: "pytype \<Rightarrow> bool" where
  "truthy_type (TForward s) = (s \<noteq> [])"
| "truthy_type t = True"

fun binders_loop ::
  "nat \<Rightarrow> class_table \<Rightarrow> (string \<times> parameter_info) list \<Rightarrow> request_binder list
     \<Rightarrow> (string \<times> parameter) list \<Rightarrow> openapi_handler
     \<Rightarrow> error + (string \<times> parameter) list \<times> openapi_handler" where
  "binders_loop depth classes parameters_info [] parameters self = Inr (parameters, self)"
| "binders_loop depth classes parameters_info (bnd # rest) parameters self =
     (case get_parameter_location_for_binder bnd of
        None \<Rightarrow> binders_loop depth classes parameters_info rest parameters self
      | Some location \<Rightarrow>
          (let required = (if location = PATH then True
                           else binder_required bnd \<and> binder_default_is_empty bnd);
               param_info = map_of parameters_info (binder_parameter_name bnd)
           in (case get_schema_by_type depth classes (binder_expected_type bnd) None self of
                 Inl e \<Rightarrow> Inl e
               | Inr (schema, self') \<Rightarrow>
                   binders_loop depth classes parameters_info rest
                     (AList.update (binder_parameter_name bnd)
                        \<lparr>parameter_name = binder_parameter_name bnd,
                         parameter_in = location,
                         parameter_required = (if required then Some True else None),
                         parameter_schema = Some schema,
                         parameter_description =
                           (case param_info of
                              Some info \<Rightarrow> parameter_info_description info
                            | None \<Rightarrow> Some []),
                         parameter_example =
                           (case param_info of
                              Some info \<Rightarrow> parameter_info_example info
                            | None \<Rightarrow> None)\<rparr>
                        parameters)
                     self')))"

fun parameters_info_loop ::
  "nat \<Rightarrow> class_table \<Rightarrow> (string \<times> parameter_info) list
     \<Rightarrow> (string \<times> parameter) list \<Rightarrow> openapi_handler
     \<Rightarrow> error + (string \<times> parameter) list \<times> openapi_handler" where
  "parameters_info_loop depth classes [] parameters self = Inr (parameters, self)"
| "parameters_info_loop depth classes ((key, param_info) # rest) parameters self =
     (if map_of parameters key \<noteq> None
      then parameters_info_loop depth classes rest parameters self
      else (case (case parameter_info_value_type param_info of
                    None \<Rightarrow> Inr (None, self)
                  | Some value_type \<Rightarrow>
                      if truthy_type value_type
                      then (case get_schema_by_type depth classes value_type None self of
                              Inl e \<Rightarrow> Inl e
                            | Inr (schema, self') \<Rightarrow> Inr (Some schema, self'))
                      else Inr (None, self)) of
              Inl e \<Rightarrow> Inl e
            | Inr (schema, self') \<Rightarrow>
                parameters_info_loop depth classes rest
                  (AList.update key
                     \<lparr>parameter_name = key,
                      parameter_in = u_parameter_source_to_openapi_obj
                        (case parameter_info_source param_info of
                           Some source \<Rightarrow> source
                         | None \<Rightarrow> SourceQuery),
                      parameter_required = parameter_info_required param_info,
                      parameter_schema = schema,
                      parameter_description = parameter_info_description param_info,
                      parameter_example = parameter_info_example param_info\<rparr>
                     parameters)
                  self'))"

definition get_parameters ::
  "nat \<Rightarrow> class_table \<Rightarrow> openapi_handler \<Rightarrow> handler
     \<Rightarrow> error + parameter list option \<times> openapi_handler" where
  "get_parameters depth classes self handler =
     (case handler_binders handler of
        None \<Rightarrow> Inr (None, self)
      | Some binders \<Rightarrow>
          (let parameters_info =
                 (case handler_docs handler of
                    None \<Rightarrow> []
                  | Some docs \<Rightarrow>
                      (case docs_parameters docs of None \<Rightarrow> [] | Some info \<Rightarrow> info))
           in (case binders_loop depth classes parameters_info binders [] self of
                 Inl e \<Rightarrow> Inl e
               | Inr (parameters, self') \<Rightarrow>
                   (case parameters_info_loop depth classes parameters_info parameters self' of
                      Inl e \<Rightarrow> Inl e
                    | Inr (parameters', self'') \<Rightarrow>
                        Inr (Some (map snd parameters'), self'')))))"


subsection \<open>Responses\<close>

text \<open>
  The loop of \<^verbatim>\<open>_get_media_type_from_content_doc\<close> over \<^verbatim>\<open>enumerate(examples)\<close>, for two
  examples or more.
\<close>

fun named_examples_loop ::
  "common_module \<Rightarrow> nat \<Rightarrow> example_item list \<Rightarrow> (string \<times> example) list
     \<Rightarrow> (string \<times> example) list" where
  "named_examples_loop common index [] examples_doc = examples_doc"
| "named_examples_loop common index (item # rest) examples_doc =
     (let example = (case item of Wrapped e \<Rightarrow> e | Bare v \<Rightarrow> ResponseExample v None None None);
          name = (case response_example_name example of
                    None \<Rightarrow> ''example '' @ str_nat index
                  | Some n \<Rightarrow> if n = [] then ''example '' @ str_nat index else n)
      in named_examples_loop common (index + 1) rest
           (AList.update name
              (Example (response_example_summary example)
                 (response_example_description example)
                 (normalize_example common (response_example_value example)))
              examples_doc))"

definition u_get_media_type_from_content_doc ::
  "common_module \<Rightarrow> nat \<Rightarrow> class_table \<Rightarrow> openapi_handler \<Rightarrow> content_info
     \<Rightarrow> error + media_type \<times> openapi_handler" where
  "u_get_media_type_from_content_doc common depth classes self content_doc =
     (case (case content_info_type content_doc of
              None \<Rightarrow> Inr (None, self)
            | Some t \<Rightarrow>
                if truthy_type t
                then (case get_schema_by_type depth classes t None self of
                        Inl e \<Rightarrow> Inl e
                      | Inr (schema, self') \<Rightarrow> Inr (Some schema, self'))
                else Inr (None, self)) of
        Inl e \<Rightarrow> Inl e
      | Inr (schema, self') \<Rightarrow>
          Inr ((case content_info_examples content_doc of
                  None \<Rightarrow> \<lparr>media_schema = schema, media_examples = None, media_example = None\<rparr>
                | Some [] \<Rightarrow> \<lparr>media_schema = schema, media_examples = None, media_example = None\<rparr>
                | Some [example_item] \<Rightarrow>
                    \<lparr>media_schema = schema, media_examples = None,
                     media_example = Some (normalize_example common
                       (case example_item of
                          Wrapped e \<Rightarrow> response_example_value e
                        | Bare v \<Rightarrow> v))\<rparr>
                | Some examples \<Rightarrow>
                    \<lparr>media_schema = schema,
                     media_examples = Some (named_examples_loop common 0 examples []),
                     media_example = None\<rparr>),
               self'))"

fun content_loop ::
  "common_module \<Rightarrow> nat \<Rightarrow> class_table \<Rightarrow> content_info list
     \<Rightarrow> (string \<times> media_type) list \<Rightarrow> openapi_handler
     \<Rightarrow> error + (string \<times> media_type) list \<times> openapi_handler" where
  "content_loop common depth classes [] oad_content self = Inr (oad_content, self)"
| "content_loop common depth classes (content # rest) oad_content self =
     (if map_of oad_content (content_info_content_type content) = None
      then (case u_get_media_type_from_content_doc common depth classes self content of
              Inl e \<Rightarrow> Inl e
            | Inr (media, self') \<Rightarrow>
                content_loop common depth classes rest
                  (AList.update (content_info_content_type content) media oad_content) self')
      else Inl (DuplicatedContentTypeDocsException (content_info_content_type content)))"

definition u_get_content_from_response_info ::
  "common_module \<Rightarrow> nat \<Rightarrow> class_table \<Rightarrow> openapi_handler \<Rightarrow> content_info list option
     \<Rightarrow> error + (string \<times> media_type) list option \<times> openapi_handler" where
  "u_get_content_from_response_info common depth classes self response_content =
     (case response_content of
        None \<Rightarrow> Inr (None, self)
      | Some [] \<Rightarrow> Inr (None, self)
      | Some contents \<Rightarrow>
          (case content_loop common depth classes contents [] self of
             Inl e \<Rightarrow> Inl e
           | Inr (oad_content, self') \<Rightarrow> Inr (Some oad_content, self')))"

fun headers_loop ::
  "nat \<Rightarrow> class_table \<Rightarrow> (string \<times> header_info) list \<Rightarrow> (string \<times> header) list
     \<Rightarrow> openapi_handler \<Rightarrow> error + (string \<times> header) list \<times> openapi_handler" where
  "headers_loop depth classes [] result self = Inr (result, self)"
| "headers_loop depth classes ((key, v) # rest) result self =
     (case get_schema_by_type depth classes (header_info_type v) None self of
        Inl e \<Rightarrow> Inl e
      | Inr (schema, self') \<Rightarrow>
          headers_loop depth classes rest
            (AList.update key
               \<lparr>header_description = header_info_description v, header_schema = schema\<rparr>
               result)
            self')"

definition u_get_headers_from_response_info ::
  "nat \<Rightarrow> class_table \<Rightarrow> openapi_handler \<Rightarrow> (string \<times> header_info) list option
     \<Rightarrow> error + (string \<times> header) list option \<times> openapi_handler" where
  "u_get_headers_from_response_info depth classes self headers =
     (case headers of
        None \<Rightarrow> Inr (None, self)
      | Some items \<Rightarrow>
          (case headers_loop depth classes items [] self of
             Inl e \<Rightarrow> Inl e
           | Inr (result, self') \<Rightarrow> Inr (Some result, self')))"


text \<open>\<^verbatim>\<open>responses.update(other)\<close>.\<close>

definition dict_update :: "('k \<times> 'v) list \<Rightarrow> ('k \<times> 'v) list \<Rightarrow> ('k \<times> 'v) list" where
  "dict_update d other = foldl (\<lambda>d (k, v). AList.update k v d) d other"








text \<open>
  \<^verbatim>\<open>OpenAPIHandler.__init__\<close>: no component schema, no stored reference, no common
  response. The base class sets \<^verbatim>\<open>_types_schemas\<close> (empty) and
  \<^verbatim>\<open>handle_optional_response_with_404\<close>, whose value is the argument.
\<close>

definition init_handler :: "bool \<Rightarrow> openapi_handler" where
  "init_handler with_404 =
     \<lparr>components_schemas = None, objects_references = [], types_schemas = [],
      common_responses = [], handle_optional_response_with_404 = with_404,
      emitted_warnings = []\<rparr>"


subsection \<open>A class table and handler states used as concrete inputs\<close>

text \<open>
  \<^verbatim>\<open>Node\<close> declares \<^verbatim>\<open>next: "Node"\<close>, \<^verbatim>\<open>Cat\<close> declares \<^verbatim>\<open>name: Optional[str]\<close>, \<^verbatim>\<open>Kitten\<close>
  declares \<^verbatim>\<open>name: "Optional[str]"\<close>, \<^verbatim>\<open>Dog\<close> is a pydantic model with the field
  \<^verbatim>\<open>name: Optional[str]\<close>. \<^verbatim>\<open>Box\<close> and \<^verbatim>\<open>Pair\<close> are generic dataclasses, \<^verbatim>\<open>Tree\<close> and
  \<^verbatim>\<open>Shelf\<close> are generic dataclasses with a field declared by a string, the one of
  \<^verbatim>\<open>Shelf\<close> after a field of type \<^verbatim>\<open>Union[int, str]\<close>. \<^verbatim>\<open>Color\<close> is an enumeration;
  classes 3 and 12 are two classes named \<^verbatim>\<open>Item\<close> (declared in different modules).
\<close>

definition plain_record :: "string \<Rightarrow> class_info" where
  "plain_record name =
     \<lparr>class_name = name, class_kind = DataClass,
      class_fields = [\<lparr>field_name = ''id'', field_type = TInt\<rparr>],
      class_type_hints = Some [(''id'', TInt)],
      class_parameters = [], class_members = [],
      class_schema_properties = [], class_model_fields = None\<rparr>"

definition dataclass ::
  "string \<Rightarrow> field_info list \<Rightarrow> (string \<times> pytype) list option \<Rightarrow> pytype list \<Rightarrow> class_info" where
  "dataclass name fs hints parameters =
     \<lparr>class_name = name, class_kind = DataClass, class_fields = fs,
      class_type_hints = hints, class_parameters = parameters, class_members = [],
      class_schema_properties = [], class_model_fields = None\<rparr>"

definition example_class :: "nat \<Rightarrow> class_info" where
  "example_class c =
     (if c = 0 then
        dataclass ''Node''
          [\<lparr>field_name = ''value'', field_type = TInt\<rparr>,
           \<lparr>field_name = ''next'', field_type = TForward ''Node''\<rparr>]
          (Some [(''value'', TInt), (''next'', TClass 0)]) []
      else if c = 1 then
        dataclass ''Cat''
          [\<lparr>field_name = ''id'', field_type = TInt\<rparr>,
           \<lparr>field_name = ''name'', field_type = TUnion [TStr, TNoneType]\<rparr>]
          (Some [(''id'', TInt), (''name'', TUnion [TStr, TNoneType])]) []
      else if c = 2 then
        dataclass ''Box'' [\<lparr>field_name = ''item'', field_type = TVar ''T''\<rparr>]
          (Some [(''item'', TVar ''T'')]) [TVar ''T'']
      else if c = 3 then plain_record ''Item''
      else if c = 4 then plain_record ''Other''
      else if c = 5 then
        \<lparr>class_name = ''Color'', class_kind = EnumClass, class_fields = [],
         class_type_hints = Some [], class_parameters = [],
         class_members = [EnumStr ''red'', EnumStr ''green''],
         class_schema_properties = [], class_model_fields = None\<rparr>
      else if c = 6 then
        dataclass ''Pair''
          [\<lparr>field_name = ''first'', field_type = TVar ''T''\<rparr>,
           \<lparr>field_name = ''second'', field_type = TVar ''U''\<rparr>]
          (Some [(''first'', TVar ''T''), (''second'', TVar ''U'')]) [TVar ''T'', TVar ''U'']
      else if c = 7 then plain_record ''Bread''
      else if c = 8 then plain_record ''ButterAndJam''
      else if c = 9 then plain_record ''BreadAndButter''
      else if c = 10 then plain_record ''Jam''
      else if c = 11 then
        dataclass ''Tree''
          [\<lparr>field_name = ''value'', field_type = TVar ''T''\<rparr>,
           \<lparr>field_name = ''parent'', field_type = TForward ''Tree[T]''\<rparr>]
          None [TVar ''T'']
      else if c = 12 then plain_record ''Item''
      else if c = 13 then
        dataclass ''Kitten'' [\<lparr>field_name = ''name'', field_type = TForward ''Optional[str]''\<rparr>]
          (Some [(''name'', TUnion [TStr, TNoneType])]) []
      else if c = 14 then
        \<lparr>class_name = ''Dog'', class_kind = PydanticModel, class_fields = [],
         class_type_hints = Some [(''name'', TUnion [TStr, TNoneType])],
         class_parameters = [], class_members = [],
         class_schema_properties =
           [(''name'', \<lparr>property_has_ref = False, property_type = Some ''string'',
                        property_min_length = None, property_max_length = None,
                        property_format = None, property_exclusive_minimum = None,
                        property_exclusive_maximum = None\<rparr>)],
         class_model_fields =
           Some [(''name'', \<lparr>model_field_outer_type = TStr, model_field_allow_none = True\<rparr>)]\<rparr>
      else if c = 15 then
        dataclass ''Shelf''
          [\<lparr>field_name = ''labels'', field_type = TUnion [TInt, TStr]\<rparr>,
           \<lparr>field_name = ''owner'', field_type = TForward ''Owner''\<rparr>]
          None [TVar ''T'']
      else
        \<lparr>class_name = ''Plain'', class_kind = PlainClass, class_fields = [],
         class_type_hints = Some [], class_parameters = [], class_members = [],
         class_schema_properties = [], class_model_fields = None\<rparr>)"

text \<open>The table under Python 3.7 to 3.9, and the same classes under Python 3.10.\<close>

definition example_classes :: class_table where
  "example_classes = \<lparr>class_info_of = example_class, aliases_named = False\<rparr>"

definition example_classes_py310 :: class_table where
  "example_classes_py310 = \<lparr>class_info_of = example_class, aliases_named = True\<rparr>"


text \<open>
  One instance of the parameters taken from \<^verbatim>\<open>.common\<close>: JSON as the default content
  type, examples kept as they are, a status rendered in decimal or left as the string it
  is.
\<close>

fun status_text :: "response_status \<Rightarrow> string" where
  "status_text (StatusInt n) = str_nat n"
| "status_text (StatusStr s) = s"

definition example_common :: common_module where
  "example_common =
     \<lparr>default_content_type = ''application/json'',
      normalize_example = id,
      response_status_to_str = status_text\<rparr>"



text \<open>
  The key and the entry of one example of a response content: the example's own name,
  or \<^verbatim>\<open>example\<close> followed by its index when it has none.
\<close>

definition as_response_example :: "example_item \<Rightarrow> response_example" where
  "as_response_example item =
     (case item of Wrapped e \<Rightarrow> e | Bare v \<Rightarrow> ResponseExample v None None None)"

definition example_key :: "nat \<Rightarrow> example_item \<Rightarrow> string" where
  "example_key index item =
     (case response_example_name (as_response_example item) of
        None \<Rightarrow> ''example '' @ str_nat index
      | Some name \<Rightarrow> if name = [] then ''example '' @ str_nat index else name)"

definition example_doc :: "common_module \<Rightarrow> example_item \<Rightarrow> example" where
  "example_doc common item =
     Example (response_example_summary (as_response_example item))
       (response_example_description (as_response_example item))
       (normalize_example common (response_example_value (as_response_example item)))"

text \<open>
  A handler whose body is documented with a single example, and two response contents.
\<close>

definition posting_handler :: handler where
  "posting_handler =
     \<lparr>handler_binders = Some
        [\<lparr>binder_kind = BodyBinder, binder_parameter_name = ''data'',
          binder_expected_type = TStr, binder_required = True,
          binder_default_is_empty = True, binder_content_type = ''application/json''\<rparr>],
      handler_docs = Some
        \<lparr>docs_parameters = None,
         docs_request_body = Some
           \<lparr>request_body_info_description = Some ''The name of a cat'',
            request_body_info_examples = Some [(''celine'', PyStr ''Celine'')]\<rparr>,
         docs_responses = None\<rparr>,
      handler_return_type = ReturnsNone\<rparr>"

definition one_example :: content_info where
  "one_example =
     \<lparr>content_info_type = Some TStr,
      content_info_examples = Some [Bare (PyStr ''Celine'')],
      content_info_content_type = ''application/json''\<rparr>"

definition two_examples :: content_info where
  "two_examples =
     \<lparr>content_info_type = Some TStr,
      content_info_examples = Some
        [Bare (PyStr ''Celine''),
         Wrapped (ResponseExample (PyStr ''Lulu'') (Some ''second cat'') None None)],
      content_info_content_type = ''application/json''\<rparr>"









text \<open>The schema registered under a name by a resolution, if it returned.\<close>

definition schema_registered_by ::
  "error + resolved \<times> openapi_handler \<Rightarrow> string \<Rightarrow> schema option" where
  "schema_registered_by outcome name =
     (case outcome of
        Inl e \<Rightarrow> None
      | Inr (r, self') \<Rightarrow> map_of (schemas_of self') name)"



text \<open>
  A later state of the handler keeps the schemas of an earlier one when every name
  registered in the earlier one still holds the same schema; a resolver keeps schemas
  when every call that returns does.
\<close>

definition keeps_schemas :: "openapi_handler \<Rightarrow> openapi_handler \<Rightarrow> bool" where
  "keeps_schemas self self' =
     (\<forall>k v. map_of (schemas_of self) k = Some v \<longrightarrow> map_of (schemas_of self') k = Some v)"


section \<open>Properties\<close>

subsection \<open>Registration under a free name\<close>

lemma str_nat_1: "str_nat (Suc 0) = ''1''"
  by (simp add: str_nat.simps digit_char_def)

lemma str_nat_2: "str_nat (Suc (Suc 0)) = ''2''"
  by (simp add: str_nat.simps digit_char_def)

lemma while_name_taken:
  "name \<in> fst ` set schemas \<Longrightarrow>
   while_name_in_schemas schemas base_name counter name =
     while_name_in_schemas schemas base_name (Suc counter) (base_name @ str_nat (Suc counter))"
  by (subst while_name_in_schemas.simps) simp

lemma while_name_free:
  "name \<notin> fst ` set schemas \<Longrightarrow>
   while_name_in_schemas schemas base_name counter name = name"
  by (subst while_name_in_schemas.simps) simp


lemma schemas_of_update [simp]:
  "schemas_of (self\<lparr>components_schemas := Some m\<rparr>) = m"
  by (simp add: schemas_of_def)

lemma register_fresh:
  "name \<notin> fst ` set (schemas_of self) \<Longrightarrow>
   u_register_schema self schema name =
     (Reference (''#/components/schemas/'' @ name),
      self\<lparr>components_schemas := Some (AList.update name schema (schemas_of self))\<rparr>)"
  by (simp add: u_register_schema_def schemas_of_def Let_def split: option.splits)

lemma register_taken:
  "name \<in> fst ` set (schemas_of self) \<Longrightarrow>
   u_register_schema self schema name =
     (Reference (''#/components/schemas/''
        @ while_name_in_schemas (schemas_of self) name 0 name),
      self\<lparr>components_schemas := Some (AList.update
        (while_name_in_schemas (schemas_of self) name 0 name) schema (schemas_of self))\<rparr>)"
  by (simp add: u_register_schema_def schemas_of_def Let_def split: option.splits)



lemma collision_steps:
  assumes free: "name \<notin> fst ` set (schemas_of self)"
      "name @ ''1'' \<notin> fst ` set (schemas_of self)"
      "name @ ''2'' \<notin> fst ` set (schemas_of self)"
    and regs: "u_register_schema self first name = (r1, self1)"
      "u_register_schema self1 second name = (r2, self2)"
      "u_register_schema self2 third name = (r3, self3)"
  shows "r1 = Reference (''#/components/schemas/'' @ name)
    \<and> r2 = Reference (''#/components/schemas/'' @ name @ ''1'')
    \<and> r3 = Reference (''#/components/schemas/'' @ name @ ''2'')
    \<and> map_of (schemas_of self3) name = Some first
    \<and> map_of (schemas_of self3) (name @ ''1'') = Some second
    \<and> map_of (schemas_of self3) (name @ ''2'') = Some third"
proof -
  let ?m = "schemas_of self"
  from free(1) regs(1) have 1: "r1 = Reference (''#/components/schemas/'' @ name)"
    "schemas_of self1 = AList.update name first ?m"
    by (auto simp: register_fresh)
  have k1: "fst ` set (schemas_of self1) = insert name (fst ` set ?m)"
    by (simp add: 1 dom_update)
  have w2: "while_name_in_schemas (schemas_of self1) name 0 name = name @ ''1''"
    using free k1 by (simp add: while_name_taken while_name_free str_nat_1)
  have "name \<in> fst ` set (schemas_of self1)"
    using k1 by simp
  from register_taken [OF this, of second] regs(2) w2
  have 2: "r2 = Reference (''#/components/schemas/'' @ name @ ''1'')"
    "schemas_of self2 = AList.update (name @ ''1'') second (schemas_of self1)"
    by auto
  have k2: "fst ` set (schemas_of self2) = insert (name @ ''1'') (insert name (fst ` set ?m))"
    using k1 by (auto simp: 2 dom_update)
  have w3: "while_name_in_schemas (schemas_of self2) name 0 name = name @ ''2''"
    using free k2 by (simp add: while_name_taken while_name_free str_nat_1 str_nat_2)
  have "name \<in> fst ` set (schemas_of self2)"
    using k2 by simp
  from register_taken [OF this, of third] regs(3) w3
  have 3: "r3 = Reference (''#/components/schemas/'' @ name @ ''2'')"
    "schemas_of self3 = AList.update (name @ ''2'') third (schemas_of self2)"
    by auto
  show ?thesis
    by (simp add: 1 2 3 update_conv')
qed

text \<open>
  Claim C5. Three schemas registered one after the other under the same proposed name,
  in a registry where that name and its first two numbered variants are free, are stored
  under the name itself, the name followed by \<open>1\<close> and the name followed by \<open>2\<close>; the
  first one is still found under the bare name at the end.
\<close>

theorem collision_naming:
  assumes "name \<notin> fst ` set (schemas_of self)"
    and "name @ ''1'' \<notin> fst ` set (schemas_of self)"
    and "name @ ''2'' \<notin> fst ` set (schemas_of self)"
  shows "(case u_register_schema self first name of (r1, self1) \<Rightarrow>
          (case u_register_schema self1 second name of (r2, self2) \<Rightarrow>
            (case u_register_schema self2 third name of (r3, self3) \<Rightarrow>
               r1 = Reference (''#/components/schemas/'' @ name)
             \<and> r2 = Reference (''#/components/schemas/'' @ name @ ''1'')
             \<and> r3 = Reference (''#/components/schemas/'' @ name @ ''2'')
             \<and> map_of (schemas_of self3) name = Some first
             \<and> map_of (schemas_of self3) (name @ ''1'') = Some second
             \<and> map_of (schemas_of self3) (name @ ''2'') = Some third)))"
proof -
  obtain r1 self1 where 1: "u_register_schema self first name = (r1, self1)"
    by (cases "u_register_schema self first name")
  obtain r2 self2 where 2: "u_register_schema self1 second name = (r2, self2)"
    by (cases "u_register_schema self1 second name")
  obtain r3 self3 where 3: "u_register_schema self2 third name = (r3, self3)"
    by (cases "u_register_schema self2 third name")
  from collision_steps [OF assms 1 2 3] show ?thesis
    by (simp add: 1 2 3)
qed

theorem collision_naming_witness:
  "(case u_register_schema (init_handler True) empty_schema ''Foo'' of (r1, self1) \<Rightarrow>
     (case u_register_schema self1 (array_schema (Sch empty_schema)) ''Foo'' of (r2, self2) \<Rightarrow>
       (case u_register_schema self2 (object_schema [] []) ''Foo'' of (r3, self3) \<Rightarrow>
          r1 = Reference ''#/components/schemas/Foo''
        \<and> r2 = Reference ''#/components/schemas/Foo1''
        \<and> r3 = Reference ''#/components/schemas/Foo2''
        \<and> map_of (schemas_of self3) ''Foo'' = Some empty_schema
        \<and> map_of (schemas_of self3) ''Foo1'' = Some (array_schema (Sch empty_schema))
        \<and> map_of (schemas_of self3) ''Foo2'' = Some (object_schema [] []))))"
  using collision_naming [where name = "''Foo''" and self = "init_handler True"
      and first = empty_schema and second = "array_schema (Sch empty_schema)"
      and third = "object_schema [] []"]
  by (simp add: init_handler_def schemas_of_def)

subsection \<open>Unions\<close>

text \<open>
  A \<^verbatim>\<open>typing.Union\<close> with more than two members, or without \<^verbatim>\<open>NoneType\<close> among its
  members, makes \<^verbatim>\<open>check_union\<close> raise \<^verbatim>\<open>UnsupportedUnionTypeException\<close>; the exception
  leaves \<^verbatim>\<open>get_schema_by_type\<close>, called without type arguments, whenever the union itself
  is not a key of the reference cache, and it leaves the field loop of a record that
  declares a field of that type.
\<close>

lemma typing_union_rejection:
  assumes "TNoneType \<notin> set args \<or> length args > 2"
  shows "check_union (TUnion args) = Inl (UnsupportedUnionTypeException (TUnion args))
    \<and> (map_of (objects_references self) (KType (TUnion args)) = None \<longrightarrow>
         get_schema_by_type (Suc depth) classes (TUnion args) None self
           = Inl (UnsupportedUnionTypeException (TUnion args)))
    \<and> (field_type field = TUnion args \<longrightarrow>
         class_fields_loop resolve classes object_type (field # rest) required properties self
           = Inl (UnsupportedUnionTypeException (TUnion args)))"
  using assms by (auto simp: u_get_stored_reference_def)

lemma resolve_without_class:
  assumes "\<not> u_can_handle_class_type classes self object_type"
    and "u_try_get_schema_for_simple_type object_type = None"
    and "get_origin object_type = None"
    and "object_type \<notin> {TList, TSet, TTuple}"
    and "\<not> is_generic_alias object_type"
    and "\<not> isclass object_type"
    and "u_get_stored_reference depth classes self object_type type_args = Inr None"
  shows "u_get_schema_by_type resolve depth classes object_type type_args self
      = Inr (Sch empty_schema, self)"
  using assms by (simp add: u_get_schema_by_type_def u_try_get_schema_for_iterable_def)

text \<open>
  Claim C4 does not hold of a union written \<^verbatim>\<open>int | str\<close> (Python 3.10). It has no
  attribute \<^verbatim>\<open>__origin__\<close>, so \<^verbatim>\<open>check_union\<close> takes it for a type that is not a union and
  raises nothing, although it has two members and none is \<^verbatim>\<open>NoneType\<close>; resolution
  returns the unconstrained schema. Nor is \<^verbatim>\<open>UnsupportedUnionTypeException\<close> what
  \<^verbatim>\<open>Union[int, str]\<close> raises when it is resolved under type arguments on Python 3.7 to
  3.9: the lookup of the stored reference asks for the name of the type first, and
  \<^verbatim>\<open>get_type_name\<close> raises \<^verbatim>\<open>ValueError\<close> for \<^verbatim>\<open>typing.Union\<close>.
\<close>

theorem union_type_not_rejected:
  "check_union (TUnionType [TInt, TStr]) = Inr (False, TUnionType [TInt, TStr])
   \<and> get_schema_by_type (Suc (Suc 0)) example_classes_py310 (TUnionType [TInt, TStr]) None
         (init_handler True)
       = Inr (Sch (Schema None None None None None (Some False) None), init_handler True)
   \<and> get_schema_by_type (Suc (Suc (Suc (Suc 0)))) example_classes (TUnion [TInt, TStr])
         (Some [(TVar ''T'', TInt)]) (init_handler True)
       = Inl (ValueError TUnionForm)"
proof -
  have named: "get_schema_by_type (Suc (Suc (Suc (Suc 0)))) example_classes (TUnion [TInt, TStr])
         (Some [(TVar ''T'', TInt)]) (init_handler True)
       = Inl (ValueError TUnionForm)"
    by (simp add: u_get_stored_reference_def init_handler_def example_classes_def)
  have stored: "u_get_stored_reference d example_classes_py310 (init_handler True)
      (TUnionType [TInt, TStr]) None = Inr None" for d
    by (simp add: u_get_stored_reference_def init_handler_def)
  have "u_get_schema_by_type resolve (Suc 0) example_classes_py310 (TUnionType [TInt, TStr]) None
      (init_handler True) = Inr (Sch empty_schema, init_handler True)" for resolve
  proof (rule resolve_without_class)
    show "\<not> u_can_handle_class_type example_classes_py310 (init_handler True)
        (TUnionType [TInt, TStr])"
      by (simp add: u_can_handle_class_type_def object_types_handlers_def init_handler_def)
  qed (simp_all add: stored)
  then have "get_schema_by_type (Suc (Suc 0)) example_classes_py310 (TUnionType [TInt, TStr])
      None (init_handler True)
    = Inr (Sch (Schema None None None None None (Some False) None), init_handler True)"
    by (simp add: stored empty_schema_def)
  with named show ?thesis
    by (simp del: get_schema_by_type.simps)
qed

subsection \<open>Handlers without binders\<close>

text \<open>
  Claim C10. For a handler object without the attribute \<^verbatim>\<open>binders\<close>, \<^verbatim>\<open>get_parameters\<close>
  and \<^verbatim>\<open>get_request_body\<close> both return \<^verbatim>\<open>None\<close>, raise nothing and leave the handler
  state as it was.
\<close>

theorem no_binders_attribute:
  assumes "handler_binders handler = None"
  shows "get_parameters depth classes self handler = Inr (None, self)
    \<and> get_request_body depth classes self handler = Inr (None, self)"
  using assms by (simp add: get_parameters_def get_request_body_def)

theorem no_binders_attribute_witness:
  "get_parameters 0 example_classes (init_handler True)
     \<lparr>handler_binders = None, handler_docs = None, handler_return_type = Returns TStr\<rparr>
     = Inr (None, init_handler True)
   \<and> get_request_body 0 example_classes (init_handler True)
     \<lparr>handler_binders = None, handler_docs = None, handler_return_type = Returns TStr\<rparr>
     = Inr (None, init_handler True)"
  using no_binders_attribute [where depth = 0 and classes = example_classes
      and self = "init_handler True" and handler =
      "\<lparr>handler_binders = None, handler_docs = None, handler_return_type = Returns TStr\<rparr>"]
  by simp

subsection \<open>Self-referential records\<close>

lemma first_field_of_node:
  "get_schema_by_type (Suc depth) example_classes TInt None (init_handler True)
     = Inr (Sch (Schema (Some INTEGER) (Some INT64) None None None (Some False) None),
            init_handler True)"
  by (simp add: u_get_stored_reference_def u_get_schema_by_type_def u_can_handle_class_type_def
      object_types_handlers_def init_handler_def)


text \<open>
  Claim C2 does not hold of the code. \<^verbatim>\<open>_get_schema_for_class\<close> resolves every field
  before \<^verbatim>\<open>_handle_object_type\<close> stores the reference of the record, so the lookup at
  the recursive occurrence finds nothing. For the dataclass \<^verbatim>\<open>Node\<close> with the fields
  \<^verbatim>\<open>value: int\<close> and \<^verbatim>\<open>next: "Node"\<close>, resolution from the initial handler ends in
  \<^verbatim>\<open>RecursionError\<close> whatever call depth is available: it never returns a reference.
\<close>

theorem self_reference_never_returns:
  "get_schema_by_type depth example_classes (TClass 0) None (init_handler True)
     = Inl RecursionError"
proof (induction depth)
  case 0
  show ?case by simp
next
  case (Suc depth)
  have lookup: "u_get_stored_reference d example_classes (init_handler True) (TClass 0) None
      = Inr None" for d
    by (simp add: u_get_stored_reference_def init_handler_def)
  have handled: "u_can_handle_class_type example_classes (init_handler True) (TClass 0)"
    by (simp add: u_can_handle_class_type_def object_types_handlers_def example_classes_def
        example_class_def dataclass_def)
  have fs: "get_fields example_classes (TClass 0)
      = Inr [\<lparr>field_name = ''value'', field_type = TInt\<rparr>,
             \<lparr>field_name = ''next'', field_type = TForward ''Node''\<rparr>]"
    by (simp add: get_fields_def object_types_handlers_def example_classes_def
        example_class_def dataclass_def)
  have hints: "class_type_hints (class_info_of example_classes 0)
      = Some [(''value'', TInt), (''next'', TClass 0)]"
    by (simp add: example_classes_def example_class_def dataclass_def)
  have no_explicit: "map_of (types_schemas (init_handler True)) (TClass 0) = None"
    by (simp add: init_handler_def)
  note IH = Suc.IH
  have loop: "class_fields_loop (get_schema_by_type depth example_classes) example_classes
      (TClass 0)
      [\<lparr>field_name = ''value'', field_type = TInt\<rparr>,
       \<lparr>field_name = ''next'', field_type = TForward ''Node''\<rparr>] [] [] (init_handler True)
      = Inl RecursionError"
  proof (cases depth)
    case 0
    then show ?thesis by simp
  next
    case (Suc d)
    have int: "get_schema_by_type depth example_classes TInt None (init_handler True)
      = Inr (Sch (Schema (Some INTEGER) (Some INT64) None None None (Some False) None),
             init_handler True)"
      unfolding Suc by (rule first_field_of_node)
    show ?thesis
      by (simp add: hints int IH del: get_schema_by_type.simps)
  qed
  show ?case
    by (simp add: lookup u_get_schema_by_type_def handled u_get_schema_for_class_def
        no_explicit fs loop del: class_fields_loop.simps)
qed


subsection \<open>Reuse of stored references\<close>

text \<open>
  A type that is a key of \<^verbatim>\<open>_objects_references\<close> resolves to the stored reference, and
  nothing is registered.
\<close>

lemma stored_reference_reused:
  assumes "hashable object_type"
    and "map_of (objects_references self) (key_of object_type) = Some reference"
  shows "get_schema_by_type (Suc depth) classes object_type type_args self
      = Inr (Ref reference, self)"
    and "register_schema_for_type depth classes object_type self = Inr (reference, self)"
  using assms
  by (cases object_type; simp add: u_get_stored_reference_def register_schema_for_type_def)+

text \<open>
  Claim C3 does not hold of \<^verbatim>\<open>register_schema_for_type\<close>. When the type resolves to a
  schema rather than a reference, the method registers the schema and returns the new
  reference without storing it in \<^verbatim>\<open>_objects_references\<close>, as \<^verbatim>\<open>_handle_object_type\<close>
  does. Registering the enumeration \<^verbatim>\<open>Color\<close> twice from the initial handler returns
  the references \<^verbatim>\<open>Color\<close> and \<^verbatim>\<open>Color1\<close> and leaves two schemas in the components.
\<close>

theorem register_schema_for_type_twice:
  "register_schema_for_type (Suc (Suc (Suc 0))) example_classes (TClass 5) (init_handler True)
     = Inr (Reference ''#/components/schemas/Color'',
            (init_handler True)\<lparr>components_schemas := Some
              [(''Color'', Schema (Some STRING) None None None None (Some False)
                  (Some [EnumStr ''red'', EnumStr ''green'']))]\<rparr>)
   \<and> register_schema_for_type (Suc (Suc (Suc 0))) example_classes (TClass 5)
       ((init_handler True)\<lparr>components_schemas := Some
              [(''Color'', Schema (Some STRING) None None None None (Some False)
                  (Some [EnumStr ''red'', EnumStr ''green'']))]\<rparr>)
     = Inr (Reference ''#/components/schemas/Color1'',
            (init_handler True)\<lparr>components_schemas := Some
              [(''Color'', Schema (Some STRING) None None None None (Some False)
                  (Some [EnumStr ''red'', EnumStr ''green''])),
               (''Color1'', Schema (Some STRING) None None None None (Some False)
                  (Some [EnumStr ''red'', EnumStr ''green'']))]\<rparr>)"
  by (simp add: register_schema_for_type_def u_get_stored_reference_def u_get_schema_by_type_def
      u_can_handle_class_type_def object_types_handlers_def init_handler_def example_classes_def
      example_class_def
      u_try_get_schema_for_iterable_def u_register_schema_def
      while_name_taken while_name_free str_nat_1)

subsection \<open>Optional types\<close>

lemma key_in_dict: "(k \<in> fst ` set d) = (map_of d k \<noteq> None)"
  by (simp add: map_of_eq_None_iff)

lemmas resolution_defs = key_in_dict Let_def
  u_get_stored_reference_def u_get_schema_by_type_def u_can_handle_class_type_def
  object_types_handlers_def u_get_schema_for_class_def get_fields_def
  u_try_get_schema_for_iterable_def u_try_get_schema_for_generic_def dict_zip_def
  dict_of_items_def u_handle_object_type_def u_register_schema_def object_schema_def
  store_reference_def example_classes_def example_classes_py310_def example_class_def
  plain_record_def dataclass_def u_open_api_v2_field_schema_to_type_def

text \<open>
  Claim C1 does not hold of the code. \<^verbatim>\<open>get_schema_by_type\<close> assigns \<^verbatim>\<open>nullable\<close> only behind
  the guard \<^verbatim>\<open>not is_optional\<close>, so the attribute is never set to true: \<^verbatim>\<open>Optional[int]\<close>
  resolves to the integer schema with \<^verbatim>\<open>nullable\<close> unset. In the dataclass \<^verbatim>\<open>Cat\<close> the field
  \<^verbatim>\<open>name: Optional[str]\<close> is left out of \<^verbatim>\<open>required\<close>, and its schema has \<^verbatim>\<open>nullable\<close> false.
  In \<^verbatim>\<open>Kitten\<close>, where the same type is written as a string, and in the pydantic model
  \<^verbatim>\<open>Dog\<close>, the optional field \<^verbatim>\<open>name\<close> is listed in \<^verbatim>\<open>required\<close>; only the handler of
  pydantic models marks it nullable.
\<close>

theorem optional_left_not_nullable:
  "get_schema_by_type (Suc (Suc 0)) example_classes (TUnion [TNoneType, TInt]) None
       (init_handler True)
     = Inr (Sch (Schema (Some INTEGER) (Some INT64) None None None None None),
            init_handler True)
   \<and> schema_registered_by
         (get_schema_by_type (Suc (Suc (Suc 0))) example_classes (TClass 1) None
            (init_handler True)) ''Cat''
     = Some (Schema (Some OBJECT) None (Some [''id''])
         (Some [(''id'', Sch (Schema (Some INTEGER) (Some INT64) None None None
                               (Some False) None)),
                (''name'', Sch (Schema (Some STRING) None None None None
                               (Some False) None))])
         None None None)
   \<and> schema_registered_by
         (get_schema_by_type (Suc (Suc (Suc 0))) example_classes (TClass 13) None
            (init_handler True)) ''Kitten''
     = Some (Schema (Some OBJECT) None (Some [''name''])
         (Some [(''name'', Sch (Schema (Some STRING) None None None None None None))])
         None None None)
   \<and> schema_registered_by
         (get_schema_by_type (Suc (Suc (Suc 0))) example_classes (TClass 14) None
            (init_handler True)) ''Dog''
     = Some (Schema (Some OBJECT) None (Some [''name''])
         (Some [(''name'', Sch (Schema (Some STRING) None None None None
                               (Some True) None))])
         None None None)"
  by (simp add: resolution_defs init_handler_def schema_registered_by_def schemas_of_def)

subsection \<open>Responses inferred from the return type\<close>

lemma no_content [simp]:
  "u_get_content_from_response_info common depth classes self None = Inr (None, self)"
  "u_get_content_from_response_info common depth classes self (Some []) = Inr (None, self)"
  by (simp_all add: u_get_content_from_response_info_def)

lemma no_headers [simp]:
  "u_get_headers_from_response_info depth classes self None = Inr (None, self)"
  by (simp add: u_get_headers_from_response_info_def)













subsection \<open>Examples of request bodies and of response contents\<close>

lemma dict_update_Cons:
  "dict_update d ((k, v) # rest) = dict_update (AList.update k v d) rest"
  by (simp add: dict_update_def)

lemma named_examples_loop_enumerate:
  "named_examples_loop common index items examples_doc
     = dict_update examples_doc
         (map (\<lambda>(i, item). (example_key i item, example_doc common item))
            (enumerate index items))"
proof (induction items arbitrary: index examples_doc)
  case Nil
  show ?case by (simp add: dict_update_def)
next
  case (Cons item rest)
  show ?case
    by (simp add: Cons.IH dict_update_Cons example_key_def example_doc_def
        as_response_example_def Let_def split: example_item.splits option.splits)
qed

text \<open>
  Claim C8, as the code has it. The examples of a request body are a dictionary keyed
  by name; \<^verbatim>\<open>get_request_body\<close> turns every entry into an \<^verbatim>\<open>Example\<close> under the same
  key, whatever their number, and never sets the inline \<open>example\<close>. The single inline
  example and the names \<^verbatim>\<open>example {index}\<close> belong to the examples of a response
  content: \<^verbatim>\<open>_get_media_type_from_content_doc\<close> attaches one example inline, and keys two
  or more by their name, or by \<^verbatim>\<open>example\<close> and their index when they have none.
\<close>

theorem request_body_examples:
  "(handler_binders handler = Some binders \<and> u_get_body_binder binders = Some body
      \<and> handler_docs handler = Some docs \<and> docs_request_body docs = Some info
      \<and> request_body_info_examples info = Some examples \<and> examples \<noteq> []
      \<and> get_schema_by_type depth classes (binder_expected_type body) None self
          = Inr (schema, self') \<longrightarrow>
    get_request_body depth classes self handler
      = Inr (Some \<lparr>request_body_content =
                     [(binder_content_type body,
                       \<lparr>media_schema = Some schema,
                        media_examples = Some (dict_of_items
                          (map (\<lambda>(key, v). (key, Example None None v)) examples)),
                        media_example = None\<rparr>)],
                   request_body_required = binder_required body,
                   request_body_description = request_body_info_description info\<rparr>,
             self'))
   \<and> (u_get_media_type_from_content_doc common depth classes self content_doc
        = Inr (media, after)
      \<and> content_info_examples content_doc = Some [item] \<longrightarrow>
    media_examples media = None
      \<and> media_example media = Some (normalize_example common
            (response_example_value (as_response_example item))))
   \<and> (u_get_media_type_from_content_doc common depth classes self content_doc
        = Inr (media, after)
      \<and> content_info_examples content_doc = Some items \<and> 2 \<le> length items \<longrightarrow>
    media_example media = None
      \<and> media_examples media = Some (dict_of_items
            (map (\<lambda>(i, item). (example_key i item, example_doc common item))
               (enumerate 0 items))))"
proof (intro conjI impI)
  assume "handler_binders handler = Some binders \<and> u_get_body_binder binders = Some body
      \<and> handler_docs handler = Some docs \<and> docs_request_body docs = Some info
      \<and> request_body_info_examples info = Some examples \<and> examples \<noteq> []
      \<and> get_schema_by_type depth classes (binder_expected_type body) None self
          = Inr (schema, self')"
  then show "get_request_body depth classes self handler
      = Inr (Some \<lparr>request_body_content =
                     [(binder_content_type body,
                       \<lparr>media_schema = Some schema,
                        media_examples = Some (dict_of_items
                          (map (\<lambda>(key, v). (key, Example None None v)) examples)),
                        media_example = None\<rparr>)],
                   request_body_required = binder_required body,
                   request_body_description = request_body_info_description info\<rparr>,
             self')"
    by (simp add: get_request_body_def Let_def)
next
  assume h: "u_get_media_type_from_content_doc common depth classes self content_doc
        = Inr (media, after)
      \<and> content_info_examples content_doc = Some [item]"
  then have "media_examples media = None
      \<and> media_example media = Some (normalize_example common
            (response_example_value (as_response_example item)))"
    by (auto simp: u_get_media_type_from_content_doc_def as_response_example_def
        split: sum.splits prod.splits example_item.splits)
  then show "media_examples media = None"
    and "media_example media = Some (normalize_example common
            (response_example_value (as_response_example item)))"
    by simp_all
next
  assume h: "u_get_media_type_from_content_doc common depth classes self content_doc
        = Inr (media, after)
      \<and> content_info_examples content_doc = Some items \<and> 2 \<le> length items"
  then obtain first second rest where items: "items = first # second # rest"
    by (cases items; cases "tl items") auto
  from h have "media_example media = None
      \<and> media_examples media = Some (named_examples_loop common 0 items [])"
    unfolding items
    by (auto simp: u_get_media_type_from_content_doc_def split: sum.splits prod.splits)
  then show "media_example media = None"
    and "media_examples media = Some (dict_of_items
            (map (\<lambda>(i, item). (example_key i item, example_doc common item))
               (enumerate 0 items)))"
    by (simp_all add: named_examples_loop_enumerate dict_update_def dict_of_items_def)
qed


text \<open>
  Claim C8 as stated fails on a request body documented with exactly one example: the
  example is attached under its name in \<open>examples\<close>, and \<open>example\<close> stays unset.
\<close>

theorem request_body_single_example_counterexample:
  "get_request_body (Suc (Suc 0)) example_classes (init_handler True) posting_handler
     = Inr (Some \<lparr>request_body_content =
                    [(''application/json'',
                      \<lparr>media_schema = Some (Sch (Schema (Some STRING) None None None None
                                                   (Some False) None)),
                       media_examples = Some [(''celine'', Example None None (PyStr ''Celine''))],
                       media_example = None\<rparr>)],
                  request_body_required = True,
                  request_body_description = Some ''The name of a cat''\<rparr>,
            init_handler True)"
  by (simp add: get_request_body_def posting_handler_def u_get_body_binder_def Let_def
      dict_of_items_def u_get_stored_reference_def u_get_schema_by_type_def
      u_can_handle_class_type_def object_types_handlers_def init_handler_def)


lemma text_schema_resolved:
  "get_schema_by_type (Suc (Suc 0)) example_classes TStr None (init_handler True)
     = Inr (Sch (Schema (Some STRING) None None None None (Some False) None),
            init_handler True)"
  by (simp add: u_get_stored_reference_def u_get_schema_by_type_def u_can_handle_class_type_def
      object_types_handlers_def init_handler_def)

lemma one_example_media:
  "u_get_media_type_from_content_doc example_common (Suc (Suc 0)) example_classes
       (init_handler True) one_example
     = Inr (\<lparr>media_schema = Some (Sch (Schema (Some STRING) None None None None
                                         (Some False) None)),
             media_examples = None, media_example = Some (PyStr ''Celine'')\<rparr>,
            init_handler True)"
  by (simp add: u_get_media_type_from_content_doc_def one_example_def text_schema_resolved
      example_common_def del: get_schema_by_type.simps)

lemma two_examples_media:
  "u_get_media_type_from_content_doc example_common (Suc (Suc 0)) example_classes
       (init_handler True) two_examples
     = Inr (\<lparr>media_schema = Some (Sch (Schema (Some STRING) None None None None
                                         (Some False) None)),
             media_examples = Some
               [(''example 0'', Example None None (PyStr ''Celine'')),
                (''second cat'', Example None None (PyStr ''Lulu''))],
             media_example = None\<rparr>,
            init_handler True)"
  by (simp add: u_get_media_type_from_content_doc_def two_examples_def text_schema_resolved
      example_common_def str_nat.simps digit_char_def del: get_schema_by_type.simps)

theorem request_body_examples_witness:
  "get_request_body (Suc (Suc 0)) example_classes (init_handler True) posting_handler
     = Inr (Some \<lparr>request_body_content =
                    [(''application/json'',
                      \<lparr>media_schema = Some (Sch (Schema (Some STRING) None None None None
                                                   (Some False) None)),
                       media_examples = Some [(''celine'', Example None None (PyStr ''Celine''))],
                       media_example = None\<rparr>)],
                  request_body_required = True,
                  request_body_description = Some ''The name of a cat''\<rparr>,
            init_handler True)
   \<and> u_get_media_type_from_content_doc example_common (Suc (Suc 0)) example_classes
       (init_handler True) one_example
     = Inr (\<lparr>media_schema = Some (Sch (Schema (Some STRING) None None None None
                                         (Some False) None)),
             media_examples = None, media_example = Some (PyStr ''Celine'')\<rparr>,
            init_handler True)
   \<and> u_get_media_type_from_content_doc example_common (Suc (Suc 0)) example_classes
       (init_handler True) two_examples
     = Inr (\<lparr>media_schema = Some (Sch (Schema (Some STRING) None None None None
                                         (Some False) None)),
             media_examples = Some
               [(''example 0'', Example None None (PyStr ''Celine'')),
                (''second cat'', Example None None (PyStr ''Lulu''))],
             media_example = None\<rparr>,
            init_handler True)
   \<and> dict_of_items (map (\<lambda>(i, item). (example_key i item, example_doc example_common item))
         (enumerate 0 [Bare (PyStr ''Celine''),
            Wrapped (ResponseExample (PyStr ''Lulu'') (Some ''second cat'') None None)]))
     = [(''example 0'', Example None None (PyStr ''Celine'')),
        (''second cat'', Example None None (PyStr ''Lulu''))]"
  using
    request_body_examples [where handler = posting_handler and depth = "Suc (Suc 0)"
      and classes = example_classes and self = "init_handler True" and self' = "init_handler True"
      and binders = "[\<lparr>binder_kind = BodyBinder, binder_parameter_name = ''data'',
          binder_expected_type = TStr, binder_required = True,
          binder_default_is_empty = True, binder_content_type = ''application/json''\<rparr>]"
      and body = "\<lparr>binder_kind = BodyBinder, binder_parameter_name = ''data'',
          binder_expected_type = TStr, binder_required = True,
          binder_default_is_empty = True, binder_content_type = ''application/json''\<rparr>"
      and docs = "\<lparr>docs_parameters = None,
         docs_request_body = Some
           \<lparr>request_body_info_description = Some ''The name of a cat'',
            request_body_info_examples = Some [(''celine'', PyStr ''Celine'')]\<rparr>,
         docs_responses = None\<rparr>"
      and info = "\<lparr>request_body_info_description = Some ''The name of a cat'',
            request_body_info_examples = Some [(''celine'', PyStr ''Celine'')]\<rparr>"
      and examples = "[(''celine'', PyStr ''Celine'')]"
      and schema = "Sch (Schema (Some STRING) None None None None (Some False) None)"
      and common = example_common and content_doc = one_example
      and media = "\<lparr>media_schema = Some (Sch (Schema (Some STRING) None None None None
                                         (Some False) None)),
             media_examples = None, media_example = Some (PyStr ''Celine'')\<rparr>"
      and after = "init_handler True" and item = "Bare (PyStr ''Celine'')"
      and items = "[Bare (PyStr ''Celine'')]"]
    request_body_examples [where common = example_common and content_doc = two_examples
      and depth = "Suc (Suc 0)" and classes = example_classes and self = "init_handler True"
      and media = "\<lparr>media_schema = Some (Sch (Schema (Some STRING) None None None None
                                         (Some False) None)),
             media_examples = Some
               [(''example 0'', Example None None (PyStr ''Celine'')),
                (''second cat'', Example None None (PyStr ''Lulu''))],
             media_example = None\<rparr>"
      and after = "init_handler True"
      and items = "[Bare (PyStr ''Celine''),
         Wrapped (ResponseExample (PyStr ''Lulu'') (Some ''second cat'') None None)]"]
    one_example_media two_examples_media
  by (simp add: posting_handler_def u_get_body_binder_def text_schema_resolved dict_of_items_def
      one_example_def two_examples_def del: get_schema_by_type.simps)

subsection \<open>Registered schemas are kept\<close>


lemma keeps_schemas_refl [simp]: "keeps_schemas self self"
  by (simp add: keeps_schemas_def)














subsection \<open>Forward references in generic records\<close>

lemma generic_fields_loop_append:
  "generic_fields_loop resolve object_type type_args (before @ rest) required properties self
     = (case generic_fields_loop resolve object_type type_args before required properties self of
          Inl e \<Rightarrow> Inl e
        | Inr (None, self') \<Rightarrow> Inr (None, self')
        | Inr (Some (required', properties'), self') \<Rightarrow>
            generic_fields_loop resolve object_type type_args rest required' properties' self')"
proof (induction before arbitrary: required properties self)
  case Nil
  show ?case by simp
next
  case (Cons field before)
  show ?case
    by (simp add: Cons.IH split: sum.splits prod.splits)
qed

text \<open>
  Claim C9, as the code has it. Take an instantiation of a generic record that is not a
  key of the reference cache and has no explicit schema, and a field of the record whose
  declared type is a string. When the fields declared before it resolve without an
  exception, \<^verbatim>\<open>get_schema_by_type\<close> raises nothing: it returns the unconstrained schema
  (with \<open>nullable = False\<close>, as for every type that is not optional) and leaves the
  handler as the earlier fields left it, with one more warning that names the
  instantiation and the field. Nothing is registered for the instantiation.
\<close>

theorem forward_reference_in_generic:
  assumes "get_fields classes (TClass c) = Inr (before @ field # rest)"
    and "field_type field = TForward s"
    and "generic_fields_loop (get_schema_by_type depth classes) (TAlias (TClass c) args)
           (dict_zip (class_parameters (class_info_of classes c)) args) before [] [] self
         = Inr (Some (required, properties), partway)"
    and "u_get_stored_reference depth classes self (TAlias (TClass c) args) type_args = Inr None"
    and "map_of (types_schemas self) (TAlias (TClass c) args) = None"
  shows "get_schema_by_type (Suc depth) classes (TAlias (TClass c) args) type_args self
     = Inr (Sch (set_nullable False empty_schema),
            partway\<lparr>emitted_warnings := emitted_warnings partway
              @ [ForwardReferenceInGeneric (TAlias (TClass c) args) (field_name field)]\<rparr>)"
proof -
  let ?t = "TAlias (TClass c) args"
  let ?after = "partway\<lparr>emitted_warnings := emitted_warnings partway
              @ [ForwardReferenceInGeneric ?t (field_name field)]\<rparr>"
  have loop: "generic_fields_loop (get_schema_by_type depth classes) ?t
      (dict_zip (class_parameters (class_info_of classes c)) args) (before @ field # rest)
      [] [] self = Inr (None, ?after)"
    by (simp add: assms(2,3) generic_fields_loop_append)
  have generic: "u_try_get_schema_for_generic (get_schema_by_type depth classes) depth classes
      ?t type_args self = Inr (None, ?after)"
    by (simp add: u_try_get_schema_for_generic_def assms(1) loop
        del: generic_fields_loop.simps)
  have not_class: "\<not> u_can_handle_class_type classes self ?t"
    by (simp add: u_can_handle_class_type_def object_types_handlers_def assms(5))
  have not_iterable: "u_try_get_schema_for_iterable (get_schema_by_type depth classes)
      ?t type_args self = Inr (None, self)"
    by (simp add: u_try_get_schema_for_iterable_def)
  have "u_get_schema_by_type (get_schema_by_type depth classes) depth classes ?t type_args self
      = Inr (Sch empty_schema, ?after)"
    by (simp add: u_get_schema_by_type_def assms(4) not_class not_iterable generic)
  then show ?thesis
    by (simp add: assms(4))
qed

text \<open>
  Claim C9 as stated fails on \<^verbatim>\<open>Shelf[int]\<close>, whose field declared by a string comes
  after a field of type \<^verbatim>\<open>Union[int, str]\<close>: resolution raises.
\<close>

theorem forward_reference_in_generic_counterexample:
  "get_schema_by_type (Suc (Suc (Suc 0))) example_classes (TAlias (TClass 15) [TInt]) None
       (init_handler True)
     = Inl (UnsupportedUnionTypeException (TUnion [TInt, TStr]))"
  by (simp add: resolution_defs init_handler_def)

theorem forward_reference_in_generic_witness:
  "get_schema_by_type (Suc (Suc (Suc 0))) example_classes (TAlias (TClass 11) [TInt]) None
       (init_handler True)
     = Inr (Sch (set_nullable False empty_schema),
            (init_handler True)\<lparr>emitted_warnings := emitted_warnings (init_handler True)
              @ [ForwardReferenceInGeneric (TAlias (TClass 11) [TInt])
                   (field_name \<lparr>field_name = ''parent'',
                                 field_type = TForward ''Tree[T]''\<rparr>)]\<rparr>)"
  using forward_reference_in_generic [where classes = example_classes and c = 11
      and before = "[\<lparr>field_name = ''value'', field_type = TVar ''T''\<rparr>]"
      and field = "\<lparr>field_name = ''parent'', field_type = TForward ''Tree[T]''\<rparr>"
      and rest = "[]" and s = "''Tree[T]''"
      and depth = "Suc (Suc 0)" and args = "[TInt]" and self = "init_handler True"
      and required = "[''value'']"
      and properties = "[(''value'', Sch (Schema (Some INTEGER) (Some INT64) None None None
                                            (Some False) None))]"
      and partway = "init_handler True" and type_args = None]
  by (simp add: resolution_defs init_handler_def)

subsection \<open>Names of generic instantiations\<close>






end
